theory Spec2Isabelle
  imports
    Complex_Main
    "HOL-Library.Word"
    "HOL-Library.Char_ord"
    "HOL-Library.List_Lexorder"
    "HOL-Library.AList"
begin

section \<open>Data model of main.go\<close>

text \<open>
  Go's \<open>int\<close> is a 64-bit two's complement integer: calorie counts and the bounds of
  the calorie band are \<open>64 word\<close>, added with wrap-around and compared through \<open>sint\<close>.
  The loop counters, the day index and the combo counter are \<open>int\<close>, since their
  increments cannot wrap around: \<open>i\<close> and \<open>dayIndex\<close> stay below a bound that is itself
  an \<open>int\<close> of the program, \<open>attempts\<close> stays below 5000, and the combo counter of a
  run stays below seven times the length of the catalog (lemma \<open>comboCounter_small\<close>).

  Go's \<open>float64\<close> is a type parameter \<open>'f\<close> with a linear order (the popularity scores
  come from JSON, which has no NaN and no infinity), and the float64 operations the
  program uses are the fields of \<open>float64_ops\<close>. Every theorem below holds for every
  choice of these operations, so also for the IEEE ones.
\<close>

type_synonym go_int = "64 word"

record 'f float64_ops =
  f_add :: "'f \<Rightarrow> 'f \<Rightarrow> 'f"
  f_sub :: "'f \<Rightarrow> 'f \<Rightarrow> 'f"
  f_mul :: "'f \<Rightarrow> 'f \<Rightarrow> 'f"
  f_div :: "'f \<Rightarrow> 'f \<Rightarrow> 'f"
  f_round :: "'f \<Rightarrow> 'f"
  f_three :: 'f
  f_hundred :: 'f
  f_tolerance :: 'f
  f_fmt2 :: "'f \<Rightarrow> string"

record 'f MenuItem =
  ItemName :: string
  Category :: string
  Calories :: go_int
  TasteProfile :: string
  PopularityScore :: 'f

record 'f Combo =
  ComboID :: string
  Main :: string
  Side :: string
  Drink :: string
  CalorieCount :: go_int
  PopularityAvg :: 'f
  Reasoning :: string

record 'f DailyMenu =
  Day :: string
  Combos :: "'f Combo list"

record 'f MenuPlan =
  MenuPlan :: "'f DailyMenu list"

datatype go_panic = IndexOutOfRange

text \<open>
  The global random source of math/rand: an infinite sequence of raw values and the
  number of values already consumed. \<open>rand.Intn n\<close> yields a value below \<open>n\<close> and
  advances the source; any sequence of results of \<open>Intn\<close> is the behaviour of some
  \<open>draws\<close>. \<open>rand.Intn\<close> panics for \<open>n \<le> 0\<close>; the program calls it with the lengths
  of the three pools only, after it has returned early when one of them is empty.
\<close>

record rand_source =
  draws :: "nat \<Rightarrow> nat"
  pos :: nat

definition Intn :: "nat \<Rightarrow> rand_source \<Rightarrow> nat \<times> rand_source" where
  "Intn n r = (draws r (pos r) mod n, r\<lparr>pos := pos r + 1\<rparr>)"

section \<open>Formatting\<close>

definition digit_char :: "nat \<Rightarrow> char" where
  "digit_char d = char_of (48 + d)"

fun digits10 :: "nat \<Rightarrow> string" where
  "digits10 n = (if n < 10 then [digit_char n] else digits10 (n div 10) @ [digit_char (n mod 10)])"

declare digits10.simps [simp del]

text \<open>The verb \<open>%d\<close> of fmt.Sprintf.\<close>

definition itoa :: "int \<Rightarrow> string" where
  "itoa i = (if i < 0 then CHR ''-'' # digits10 (nat (- i)) else digits10 (nat i))"

text \<open>strings.Join.\<close>

fun join :: "string list \<Rightarrow> string \<Rightarrow> string" where
  "join [] sep = []"
| "join [x] sep = x"
| "join (x # y # ys) sep = x @ sep @ join (y # ys) sep"

section \<open>categorizeMenu\<close>

text \<open>Reading a \<open>map[string][]MenuItem\<close>: a missing key gives the nil slice.\<close>

definition slice_at :: "(string \<rightharpoonup> 'a list) \<Rightarrow> string \<Rightarrow> 'a list" where
  "slice_at m k = (case m k of None \<Rightarrow> [] | Some xs \<Rightarrow> xs)"

fun categorizeMenu_loop ::
  "(string \<rightharpoonup> 'f MenuItem list) \<Rightarrow> 'f MenuItem list \<Rightarrow> (string \<rightharpoonup> 'f MenuItem list)" where
  "categorizeMenu_loop categorized [] = categorized"
| "categorizeMenu_loop categorized (item # items) =
     categorizeMenu_loop
       (categorized(Category item \<mapsto> slice_at categorized (Category item) @ [item])) items"

definition categorizeMenu :: "'f MenuItem list \<Rightarrow> (string \<rightharpoonup> 'f MenuItem list)" where
  "categorizeMenu items = categorizeMenu_loop Map.empty items"

section \<open>calculateComboMetrics and isValidCombo\<close>

definition calculateComboMetrics ::
  "'f float64_ops \<Rightarrow> 'f MenuItem \<Rightarrow> 'f MenuItem \<Rightarrow> 'f MenuItem \<Rightarrow> go_int \<times> 'f" where
  "calculateComboMetrics ops mainItem sideItem drinkItem =
     (let totalCalories = Calories mainItem + Calories sideItem + Calories drinkItem;
          averagePopularity =
            f_div ops
              (f_add ops (f_add ops (PopularityScore mainItem) (PopularityScore sideItem))
                 (PopularityScore drinkItem))
              (f_three ops)
      in (totalCalories, averagePopularity))"

definition isValidCombo ::
  "('f::linorder) float64_ops \<Rightarrow> 'f MenuItem \<Rightarrow> 'f MenuItem \<Rightarrow> 'f MenuItem \<Rightarrow>
     go_int \<Rightarrow> go_int \<Rightarrow> 'f \<Rightarrow> bool" where
  "isValidCombo ops mainItem sideItem drinkItem minCalories maxCalories popularityTolerance =
     (let totalCalories = fst (calculateComboMetrics ops mainItem sideItem drinkItem)
      in if \<not> (sint minCalories \<le> sint totalCalories \<and> sint totalCalories \<le> sint maxCalories)
         then False
         else
           let popularityScores =
                 sort [PopularityScore mainItem, PopularityScore sideItem, PopularityScore drinkItem]
           in if length popularityScores > 1 \<and>
                 f_sub ops (popularityScores ! (length popularityScores - 1)) (popularityScores ! 0)
                   > popularityTolerance
              then False
              else True)"

section \<open>generateReasoning\<close>

text \<open>
  The local \<open>map[string]bool\<close> of taste profiles is an association list, because the code
  takes its length and ranges over it; the range loop runs only when there is one key.
\<close>

definition bool_at :: "(string \<times> bool) list \<Rightarrow> string \<Rightarrow> bool" where
  "bool_at m k = (case map_of m k of None \<Rightarrow> False | Some b \<Rightarrow> b)"

definition tasteDesc :: "'f MenuItem \<Rightarrow> 'f MenuItem \<Rightarrow> 'f MenuItem \<Rightarrow> string" where
  "tasteDesc mainItem sideItem drinkItem =
     (let tasteProfiles =
            AList.update (TasteProfile drinkItem) True
              (AList.update (TasteProfile sideItem) True
                 (AList.update (TasteProfile mainItem) True []))
      in if length tasteProfiles = 1
         then foldl (\<lambda>desc k. ''a '' @ k @ '' profile'') [] (map fst tasteProfiles)
         else if bool_at tasteProfiles ''spicy'' then ''a spicy and mixed taste profile''
         else if bool_at tasteProfiles ''sweet'' then ''a sweet and mixed taste profile''
         else if bool_at tasteProfiles ''savory'' then ''a savory and mixed taste profile''
         else if bool_at tasteProfiles ''fresh'' then ''a fresh and mixed taste profile''
         else ''a mixed taste profile'')"

definition generateReasoning ::
  "'f float64_ops \<Rightarrow> 'f MenuItem \<Rightarrow> 'f MenuItem \<Rightarrow> 'f MenuItem \<Rightarrow> go_int \<Rightarrow> 'f \<Rightarrow> string" where
  "generateReasoning ops mainItem sideItem drinkItem totalCalories avgPopularity =
     ''This combo features '' @ tasteDesc mainItem sideItem drinkItem
       @ '', consists of popular choices (average popularity: '' @ f_fmt2 ops avgPopularity
       @ ''), and meets the calorie target ('' @ itoa (sint totalCalories) @ '' kcal).''"

section \<open>generateDailyCombos\<close>

text \<open>
  The variables of generateDailyCombos that its loops read and write. The two
  \<open>map[string]bool\<close> are functions (a missing key reads as false), the pointer
  \<open>usedItemsForDay1\<close> is an option (\<open>None\<close> for nil), and the map of signatures is a
  partial map.
\<close>

record 'f sampler =
  dailyCombos :: "'f Combo list"
  currentDayUsedItems :: "string \<Rightarrow> bool"
  usedItemsForDay1 :: "(string \<Rightarrow> bool) option"
  allGeneratedComboSignatures :: "string \<rightharpoonup> int"
  globalComboCounter :: int
  rand :: rand_source

definition maxAttemptsPerCombo :: nat where
  "maxAttemptsPerCombo = 5000"

definition comboSignature :: "'f MenuItem \<Rightarrow> 'f MenuItem \<Rightarrow> 'f MenuItem \<Rightarrow> string" where
  "comboSignature mainItem sideItem drinkItem =
     join (sort [ItemName mainItem, ItemName sideItem, ItemName drinkItem]) ''_''"

definition isUniqueForDay1 ::
  "'f sampler \<Rightarrow> 'f MenuItem \<Rightarrow> 'f MenuItem \<Rightarrow> 'f MenuItem \<Rightarrow> bool" where
  "isUniqueForDay1 st mainItem sideItem drinkItem =
     (case usedItemsForDay1 st of
        None \<Rightarrow> True
      | Some used \<Rightarrow>
          if used (ItemName mainItem) \<or> used (ItemName sideItem) \<or> used (ItemName drinkItem)
          then False else True)"

definition isUniqueForCurrentDayItems ::
  "'f sampler \<Rightarrow> 'f MenuItem \<Rightarrow> 'f MenuItem \<Rightarrow> 'f MenuItem \<Rightarrow> bool" where
  "isUniqueForCurrentDayItems st mainItem sideItem drinkItem =
     (if currentDayUsedItems st (ItemName mainItem) \<or> currentDayUsedItems st (ItemName sideItem)
         \<or> currentDayUsedItems st (ItemName drinkItem)
      then False else True)"

definition isUniqueWithin3Days :: "'f sampler \<Rightarrow> int \<Rightarrow> string \<Rightarrow> bool" where
  "isUniqueWithin3Days st currentDayIndex sig =
     (case allGeneratedComboSignatures st sig of
        None \<Rightarrow> True
      | Some lastUsedDay \<Rightarrow> if currentDayIndex - lastUsedDay < 3 then False else True)"

text \<open>The condition of the \<open>if\<close> at lines 181-182.\<close>

definition accepts ::
  "('f::linorder) float64_ops \<Rightarrow> go_int \<Rightarrow> go_int \<Rightarrow> int \<Rightarrow> 'f sampler \<Rightarrow>
     'f MenuItem \<Rightarrow> 'f MenuItem \<Rightarrow> 'f MenuItem \<Rightarrow> bool" where
  "accepts ops minCalories maxCalories currentDayIndex st mainItem sideItem drinkItem =
     (isUniqueForDay1 st mainItem sideItem drinkItem
      \<and> isUniqueForCurrentDayItems st mainItem sideItem drinkItem
      \<and> isUniqueWithin3Days st currentDayIndex (comboSignature mainItem sideItem drinkItem)
      \<and> isValidCombo ops mainItem sideItem drinkItem minCalories maxCalories (f_tolerance ops))"

text \<open>The Combo literal of lines 187-195, for the counter value already incremented.\<close>

definition makeCombo ::
  "'f float64_ops \<Rightarrow> int \<Rightarrow> 'f MenuItem \<Rightarrow> 'f MenuItem \<Rightarrow> 'f MenuItem \<Rightarrow> 'f Combo" where
  "makeCombo ops counter mainItem sideItem drinkItem =
     (let (totalCalories, avgPopularity) = calculateComboMetrics ops mainItem sideItem drinkItem
      in \<lparr> ComboID = ''combo_'' @ itoa counter,
           Main = ItemName mainItem,
           Side = ItemName sideItem,
           Drink = ItemName drinkItem,
           CalorieCount = totalCalories,
           PopularityAvg =
             f_div ops (f_round ops (f_mul ops avgPopularity (f_hundred ops))) (f_hundred ops),
           Reasoning = generateReasoning ops mainItem sideItem drinkItem totalCalories avgPopularity \<rparr>)"

text \<open>The body of that \<open>if\<close>, lines 184-208.\<close>

definition acceptCombo ::
  "'f float64_ops \<Rightarrow> int \<Rightarrow> 'f MenuItem \<Rightarrow> 'f MenuItem \<Rightarrow> 'f MenuItem \<Rightarrow> 'f sampler \<Rightarrow> 'f sampler" where
  "acceptCombo ops currentDayIndex mainItem sideItem drinkItem st =
     (let counter = globalComboCounter st + 1;
          combo = makeCombo ops counter mainItem sideItem drinkItem
      in st\<lparr> globalComboCounter := counter,
             dailyCombos := dailyCombos st @ [combo],
             currentDayUsedItems :=
               (currentDayUsedItems st)
                 (ItemName mainItem := True, ItemName sideItem := True, ItemName drinkItem := True),
             usedItemsForDay1 :=
               (case usedItemsForDay1 st of
                  None \<Rightarrow> None
                | Some used \<Rightarrow>
                    Some (used(ItemName mainItem := True, ItemName sideItem := True,
                               ItemName drinkItem := True))),
             allGeneratedComboSignatures :=
               (allGeneratedComboSignatures st)
                 (comboSignature mainItem sideItem drinkItem \<mapsto> currentDayIndex) \<rparr>)"

text \<open>The three draws of lines 153-155.\<close>

definition drawItems ::
  "'f MenuItem list \<Rightarrow> 'f MenuItem list \<Rightarrow> 'f MenuItem list \<Rightarrow> rand_source \<Rightarrow>
     ('f MenuItem \<times> 'f MenuItem \<times> 'f MenuItem) \<times> rand_source" where
  "drawItems mains sides drinks r0 =
     (let (mi, r1) = Intn (length mains) r0;
          (si, r2) = Intn (length sides) r1;
          (di, r3) = Intn (length drinks) r2
      in ((mains ! mi, sides ! si, drinks ! di), r3))"

text \<open>
  The inner loop \<open>for attempts < maxAttemptsPerCombo\<close>: it returns \<open>comboFound\<close>, the
  final value of \<open>attempts\<close> and the variables.
\<close>

function attemptLoop ::
  "('f::linorder) float64_ops \<Rightarrow> 'f MenuItem list \<Rightarrow> 'f MenuItem list \<Rightarrow> 'f MenuItem list \<Rightarrow>
     go_int \<Rightarrow> go_int \<Rightarrow> int \<Rightarrow> nat \<Rightarrow> 'f sampler \<Rightarrow> bool \<times> nat \<times> 'f sampler" where
  "attemptLoop ops mains sides drinks minCalories maxCalories currentDayIndex attempts st =
     (if attempts < maxAttemptsPerCombo then
        (case drawItems mains sides drinks (rand st) of
           ((mainItem, sideItem, drinkItem), r) \<Rightarrow>
             if accepts ops minCalories maxCalories currentDayIndex st mainItem sideItem drinkItem
             then (True, attempts + 1,
                   acceptCombo ops currentDayIndex mainItem sideItem drinkItem (st\<lparr>rand := r\<rparr>))
             else attemptLoop ops mains sides drinks minCalories maxCalories currentDayIndex
                    (attempts + 1) (st\<lparr>rand := r\<rparr>))
      else (False, attempts, st))"
  by pat_completeness auto
termination
  by (relation "measure (\<lambda>(ops, mains, sides, drinks, lo, hi, d, attempts, st).
        maxAttemptsPerCombo - attempts)") auto

declare attemptLoop.simps [simp del]

text \<open>The outer loop \<open>for i := 0; i < numCombosPerDay; i++\<close>, from the value \<open>i\<close> on.\<close>

function slotLoop ::
  "('f::linorder) float64_ops \<Rightarrow> 'f MenuItem list \<Rightarrow> 'f MenuItem list \<Rightarrow> 'f MenuItem list \<Rightarrow>
     int \<Rightarrow> go_int \<Rightarrow> go_int \<Rightarrow> int \<Rightarrow> int \<Rightarrow> 'f sampler \<Rightarrow> 'f sampler" where
  "slotLoop ops mains sides drinks numCombosPerDay minCalories maxCalories currentDayIndex i st =
     (if i < numCombosPerDay then
        (case attemptLoop ops mains sides drinks minCalories maxCalories currentDayIndex 0 st of
           (comboFound, attempts, st') \<Rightarrow>
             if \<not> comboFound then st'
             else slotLoop ops mains sides drinks numCombosPerDay minCalories maxCalories
                    currentDayIndex (i + 1) st')
      else st)"
  by pat_completeness auto
termination
  by (relation "measure (\<lambda>(ops, mains, sides, drinks, n, lo, hi, d, i, st). nat (n - i))") auto

declare slotLoop.simps [simp del]

text \<open>
  generateDailyCombos returns the day's combos; the model returns with them what the
  call has written through its pointer and map arguments and the random source.
\<close>

definition generateDailyCombos ::
  "('f::linorder) float64_ops \<Rightarrow> (string \<rightharpoonup> 'f MenuItem list) \<Rightarrow> int \<Rightarrow> go_int \<Rightarrow> go_int \<Rightarrow>
     (string \<Rightarrow> bool) option \<Rightarrow> (string \<rightharpoonup> int) \<Rightarrow> int \<Rightarrow> int \<Rightarrow> rand_source \<Rightarrow>
     'f Combo list \<times> 'f sampler" where
  "generateDailyCombos ops categorizedMenu numCombosPerDay minCalories maxCalories
       usedItemsForDay1_arg allGeneratedComboSignatures_arg currentDayIndex
       globalComboCounter_arg rand_arg =
     (let st0 = \<lparr> dailyCombos = [],
                  currentDayUsedItems = (\<lambda>name. False),
                  usedItemsForDay1 = usedItemsForDay1_arg,
                  allGeneratedComboSignatures = allGeneratedComboSignatures_arg,
                  globalComboCounter = globalComboCounter_arg,
                  rand = rand_arg \<rparr>;
          mains = slice_at categorizedMenu ''main'';
          sides = slice_at categorizedMenu ''side'';
          drinks = slice_at categorizedMenu ''drink''
      in if length mains = 0 \<or> length sides = 0 \<or> length drinks = 0
         then ([], st0)
         else
           let st = slotLoop ops mains sides drinks numCombosPerDay minCalories maxCalories
                      currentDayIndex 0 st0
           in (dailyCombos st, st))"

section \<open>generateMenuSuggestions\<close>

definition dayNames :: "string list" where
  "dayNames = [''Monday'', ''Tuesday'', ''Wednesday'', ''Thursday'', ''Friday'', ''Saturday'',
               ''Sunday'']"

record 'f planner =
  fullMenuPlan :: "'f DailyMenu list"
  day1OverallUsedItems :: "string \<Rightarrow> bool"
  signatures :: "string \<rightharpoonup> int"
  comboCounter :: int
  source :: rand_source

text \<open>One iteration of the loop over the days, after the index into \<open>dayNames\<close>.\<close>

definition planDay ::
  "('f::linorder) float64_ops \<Rightarrow> (string \<rightharpoonup> 'f MenuItem list) \<Rightarrow> int \<Rightarrow> go_int \<Rightarrow> go_int \<Rightarrow>
     int \<Rightarrow> 'f planner \<Rightarrow> 'f planner" where
  "planDay ops categorizedMenu numCombosPerDay minCalories maxCalories dayIndex ws =
     (let currentDayItemUniquenessTracker =
            (if dayIndex = 0 then Some (day1OverallUsedItems ws) else None);
          (combos, st) =
            generateDailyCombos ops categorizedMenu numCombosPerDay minCalories maxCalories
              currentDayItemUniquenessTracker (signatures ws) dayIndex (comboCounter ws) (source ws)
      in \<lparr> fullMenuPlan = fullMenuPlan ws @ [\<lparr> Day = dayNames ! nat dayIndex, Combos = combos \<rparr>],
           day1OverallUsedItems =
             (case usedItemsForDay1 st of None \<Rightarrow> day1OverallUsedItems ws | Some used \<Rightarrow> used),
           signatures = allGeneratedComboSignatures st,
           comboCounter = globalComboCounter st,
           source = rand st \<rparr>)"

text \<open>
  The loop \<open>for dayIndex := 0; dayIndex < numDays; dayIndex++\<close>. Its first statement
  reads \<open>dayNames[dayIndex]\<close>, which panics from index 7 on.
\<close>

function dayLoop ::
  "('f::linorder) float64_ops \<Rightarrow> (string \<rightharpoonup> 'f MenuItem list) \<Rightarrow> int \<Rightarrow> int \<Rightarrow> go_int \<Rightarrow> go_int \<Rightarrow>
     int \<Rightarrow> 'f planner \<Rightarrow> go_panic + 'f planner" where
  "dayLoop ops categorizedMenu numDays numCombosPerDay minCalories maxCalories dayIndex ws =
     (if dayIndex < numDays then
        if \<not> (0 \<le> dayIndex \<and> dayIndex < int (length dayNames)) then Inl IndexOutOfRange
        else dayLoop ops categorizedMenu numDays numCombosPerDay minCalories maxCalories
               (dayIndex + 1)
               (planDay ops categorizedMenu numCombosPerDay minCalories maxCalories dayIndex ws)
      else Inr ws)"
  by pat_completeness auto
termination
  by (relation "measure (\<lambda>(ops, cm, numDays, n, lo, hi, dayIndex, ws). nat (numDays - dayIndex))")
    auto

declare dayLoop.simps [simp del]

text \<open>
  generateMenuSuggestions; \<open>seeded\<close> is the global random source as \<open>rand.Seed\<close> has
  left it. The program seeds it from the clock at every call (line 231), so \<open>seeded\<close>
  differs from run to run and is arbitrary in every theorem.
\<close>

definition generateMenuSuggestions ::
  "('f::linorder) float64_ops \<Rightarrow> rand_source \<Rightarrow> 'f MenuItem list \<Rightarrow> int \<Rightarrow> int \<Rightarrow> go_int \<Rightarrow> go_int \<Rightarrow>
     go_panic + 'f MenuPlan" where
  "generateMenuSuggestions ops seeded masterMenu numDays numCombosPerDay minCalories maxCalories =
     (let categorizedMenu = categorizeMenu masterMenu;
          ws0 = \<lparr> fullMenuPlan = [],
                  day1OverallUsedItems = (\<lambda>name. False),
                  signatures = Map.empty,
                  comboCounter = 0,
                  source = seeded \<rparr>
      in case dayLoop ops categorizedMenu numDays numCombosPerDay minCalories maxCalories 0 ws0 of
           Inl p \<Rightarrow> Inl p
         | Inr ws \<Rightarrow> Inr \<lparr> MenuPlan = fullMenuPlan ws \<rparr>)"

section \<open>A catalog and exact arithmetic for worked examples\<close>

text \<open>
  Arithmetic without rounding error on the reals, as one instance of \<open>float64_ops\<close>:
  \<open>math.Round\<close> rounds half away from zero, \<open>%.2f\<close> prints two decimals.
\<close>

definition fixed2 :: "real \<Rightarrow> string" where
  "fixed2 x =
     (let h = \<lfloor>\<bar>x\<bar> * 100 + 1 / 2\<rfloor>
      in (if x < 0 \<and> h \<noteq> 0 then ''-'' else '''') @ itoa (h div 100) @ ''.''
           @ [digit_char (nat (h mod 100 div 10)), digit_char (nat (h mod 10))])"

definition exact_ops :: "real float64_ops" where
  "exact_ops =
     \<lparr> f_add = (+), f_sub = (-), f_mul = (*), f_div = (/),
       f_round = (\<lambda>x. sgn x * of_int \<lfloor>\<bar>x\<bar> + 1 / 2\<rfloor>),
       f_three = 3, f_hundred = 100, f_tolerance = 15 / 100, f_fmt2 = fixed2 \<rparr>"

definition item :: "string \<Rightarrow> string \<Rightarrow> go_int \<Rightarrow> string \<Rightarrow> real \<Rightarrow> real MenuItem" where
  "item name category calories profile score =
     \<lparr> ItemName = name, Category = category, Calories = calories, TasteProfile = profile,
       PopularityScore = score \<rparr>"

definition burger :: "real MenuItem" where
  "burger = item ''Veggie Burger'' ''main'' 500 ''savory'' 8"

definition wrap :: "real MenuItem" where
  "wrap = item ''Paneer Wrap'' ''main'' 450 ''spicy'' (79 / 10)"

definition bowl :: "real MenuItem" where
  "bowl = item ''Rice Bowl'' ''main'' 520 ''savory'' (795 / 100)"

definition fries :: "real MenuItem" where
  "fries = item ''Fries'' ''side'' 150 ''savory'' (79 / 10)"

definition salad :: "real MenuItem" where
  "salad = item ''Salad'' ''side'' 100 ''fresh'' 8"

definition water :: "real MenuItem" where
  "water = item ''Water'' ''drink'' 0 ''fresh'' (79 / 10)"

definition tea :: "real MenuItem" where
  "tea = item ''Iced Tea'' ''drink'' 50 ''sweet'' (795 / 100)"

text \<open>A random source whose \<open>i\<close>-th attempt draws index \<open>i\<close> in every pool.\<close>

definition round_robin :: rand_source where
  "round_robin = \<lparr> draws = (\<lambda>i. i div 3), pos = 0 \<rparr>"

text \<open>Three items whose calorie counts add up beyond \<open>2 ^ 63\<close>.\<close>

definition feast :: "real MenuItem" where
  "feast = item ''Feast'' ''main'' 9223372036854775807 ''savory'' 8"

definition platter :: "real MenuItem" where
  "platter = item ''Platter'' ''side'' 9223372036854775807 ''savory'' 8"

definition shake :: "real MenuItem" where
  "shake = item ''Shake'' ''drink'' 652 ''sweet'' 8"

text \<open>Two desserts, one of them named like a main dish.\<close>

definition cake :: "real MenuItem" where
  "cake = item ''Cake'' ''dessert'' 300 ''sweet'' 5"

definition burger_cake :: "real MenuItem" where
  "burger_cake = item ''Veggie Burger'' ''dessert'' 300 ''sweet'' 5"

section \<open>Notions used by the properties\<close>

text \<open>The item names a combo holds in its three positions.\<close>

definition comboNames :: "'f Combo \<Rightarrow> string set" where
  "comboNames c = {Main c, Side c, Drink c}"

text \<open>
  The signature of an accepted combo: its three item names sorted and joined, as
  generateDailyCombos computes it from the three items.
\<close>

definition signatureOf :: "'f Combo \<Rightarrow> string" where
  "signatureOf c = join (sort [Main c, Side c, Drink c]) ''_''"

section \<open>Rules for the loops\<close>

lemma slice_at_categorizeMenu_loop:
  "slice_at (categorizeMenu_loop categorized items) c =
     slice_at categorized c @ filter (\<lambda>item. Category item = c) items"
  by (induction items arbitrary: categorized) (auto simp: slice_at_def)

lemma slice_at_categorizeMenu:
  "slice_at (categorizeMenu items) c = filter (\<lambda>item. Category item = c) items"
  by (simp add: categorizeMenu_def slice_at_categorizeMenu_loop) (simp add: slice_at_def)

lemma drawItems_mem:
  assumes "mains \<noteq> []" "sides \<noteq> []" "drinks \<noteq> []"
    and "drawItems mains sides drinks r0 = ((m, s, k), r)"
  shows "m \<in> set mains \<and> s \<in> set sides \<and> k \<in> set drinks"
  using assms by (auto simp: drawItems_def Intn_def)

lemma drawItems_pos: "pos (snd (drawItems mains sides drinks r0)) = pos r0 + 3"
  by (simp add: drawItems_def Intn_def)

lemma drawItems_draws: "draws (snd (drawItems mains sides drinks r0)) = draws r0"
  by (simp add: drawItems_def Intn_def)

lemma accepts_rand [simp]:
  "accepts ops lo hi d (st\<lparr>rand := r\<rparr>) m s k = accepts ops lo hi d st m s k"
  by (simp add: accepts_def isUniqueForDay1_def isUniqueForCurrentDayItems_def
      isUniqueWithin3Days_def)

lemma attemptLoop_rule:
  assumes "P st"
    and "mains \<noteq> []" "sides \<noteq> []" "drinks \<noteq> []"
    and "\<And>st r. P st \<Longrightarrow> P (st\<lparr>rand := r\<rparr>)"
    and "\<And>st m s k. P st \<Longrightarrow> m \<in> set mains \<Longrightarrow> s \<in> set sides \<Longrightarrow> k \<in> set drinks \<Longrightarrow>
               accepts ops lo hi d st m s k \<Longrightarrow> P (acceptCombo ops d m s k st)"
  shows "P (snd (snd (attemptLoop ops mains sides drinks lo hi d a st)))"
  using assms
proof (induction ops mains sides drinks lo hi d a st rule: attemptLoop.induct)
  case (1 ops mains sides drinks lo hi d a st)
  show ?case
  proof (cases "a < maxAttemptsPerCombo")
    case False
    then show ?thesis using "1.prems" by (subst attemptLoop.simps) simp
  next
    case True
    obtain m s k r where dr: "drawItems mains sides drinks (rand st) = ((m, s, k), r)"
      by (metis prod_cases3 surj_pair)
    have mem: "m \<in> set mains" "s \<in> set sides" "k \<in> set drinks"
      using drawItems_mem [OF "1.prems"(2-4) dr] by simp_all
    have Pr: "P (st\<lparr>rand := r\<rparr>)" using "1.prems"(1,5) by blast
    show ?thesis
    proof (cases "accepts ops lo hi d st m s k")
      case acc: True
      then have "P (acceptCombo ops d m s k (st\<lparr>rand := r\<rparr>))"
        using "1.prems"(6) [OF Pr mem] by simp
      then show ?thesis using True dr acc by (subst attemptLoop.simps) simp
    next
      case rej: False
      have "P (snd (snd (attemptLoop ops mains sides drinks lo hi d (a + 1) (st\<lparr>rand := r\<rparr>))))"
        using "1.IH" [OF True dr [symmetric] refl refl rej Pr "1.prems"(2-6)] .
      then show ?thesis using True dr rej by (subst attemptLoop.simps) simp
    qed
  qed
qed

lemma slotLoop_rule:
  assumes "P st"
    and "mains \<noteq> []" "sides \<noteq> []" "drinks \<noteq> []"
    and "\<And>st r. P st \<Longrightarrow> P (st\<lparr>rand := r\<rparr>)"
    and "\<And>st m s k. P st \<Longrightarrow> m \<in> set mains \<Longrightarrow> s \<in> set sides \<Longrightarrow> k \<in> set drinks \<Longrightarrow>
               accepts ops lo hi d st m s k \<Longrightarrow> P (acceptCombo ops d m s k st)"
  shows "P (slotLoop ops mains sides drinks n lo hi d i st)"
  using assms
proof (induction ops mains sides drinks n lo hi d i st rule: slotLoop.induct)
  case (1 ops mains sides drinks n lo hi d i st)
  show ?case
  proof (cases "i < n")
    case False
    then show ?thesis using "1.prems"(1) by (subst slotLoop.simps) simp
  next
    case True
    obtain found a st' where al: "attemptLoop ops mains sides drinks lo hi d 0 st = (found, a, st')"
      by (metis prod_cases3)
    have P': "P st'"
      using attemptLoop_rule [of P st mains sides drinks ops lo hi d 0, OF "1.prems"] al by simp
    show ?thesis
    proof (cases found)
      case False
      then show ?thesis using True al P' by (subst slotLoop.simps) simp
    next
      case fnd: True
      have "P (slotLoop ops mains sides drinks n lo hi d (i + 1) st')"
        using "1.IH" [OF True al [symmetric] refl _ P' "1.prems"(2-6)] fnd by simp
      then show ?thesis using True al fnd by (subst slotLoop.simps) simp
    qed
  qed
qed

lemma generateDailyCombos_fst:
  "fst (generateDailyCombos ops cm n lo hi u sg d c r) =
     dailyCombos (snd (generateDailyCombos ops cm n lo hi u sg d c r))"
  by (simp add: generateDailyCombos_def Let_def)

lemma generateDailyCombos_rule:
  assumes "P \<lparr> dailyCombos = [], currentDayUsedItems = (\<lambda>name. False), usedItemsForDay1 = u,
               allGeneratedComboSignatures = sg, globalComboCounter = c, rand = r \<rparr>"
    and "\<And>st r. P st \<Longrightarrow> P (st\<lparr>rand := r\<rparr>)"
    and "\<And>st m s k. P st \<Longrightarrow> m \<in> set (slice_at cm ''main'') \<Longrightarrow> s \<in> set (slice_at cm ''side'') \<Longrightarrow>
               k \<in> set (slice_at cm ''drink'') \<Longrightarrow>
               accepts ops lo hi d st m s k \<Longrightarrow> P (acceptCombo ops d m s k st)"
  shows "P (snd (generateDailyCombos ops cm n lo hi u sg d c r))"
proof (cases "slice_at cm ''main'' = [] \<or> slice_at cm ''side'' = [] \<or> slice_at cm ''drink'' = []")
  case True
  then show ?thesis using assms(1) by (auto simp: generateDailyCombos_def Let_def)
next
  case False
  then have ne: "slice_at cm ''main'' \<noteq> []" "slice_at cm ''side'' \<noteq> []" "slice_at cm ''drink'' \<noteq> []"
    by simp_all
  show ?thesis
    using slotLoop_rule [of P _ "slice_at cm ''main''" "slice_at cm ''side''" "slice_at cm ''drink''"
        ops lo hi d n 0, OF assms(1) ne assms(2,3)] False
    by (simp add: generateDailyCombos_def Let_def)
qed

lemma planDay_eq:
  "planDay ops cm n lo hi d ws =
     (let st = snd (generateDailyCombos ops cm n lo hi
                 (if d = 0 then Some (day1OverallUsedItems ws) else None)
                 (signatures ws) d (comboCounter ws) (source ws))
      in \<lparr> fullMenuPlan = fullMenuPlan ws @ [\<lparr> Day = dayNames ! nat d, Combos = dailyCombos st \<rparr>],
           day1OverallUsedItems =
             (case usedItemsForDay1 st of None \<Rightarrow> day1OverallUsedItems ws | Some used \<Rightarrow> used),
           signatures = allGeneratedComboSignatures st,
           comboCounter = globalComboCounter st,
           source = rand st \<rparr>)"
proof -
  obtain combos st where g: "generateDailyCombos ops cm n lo hi
       (if d = 0 then Some (day1OverallUsedItems ws) else None)
       (signatures ws) d (comboCounter ws) (source ws) = (combos, st)"
    by (metis surj_pair)
  have "combos = dailyCombos st"
    using generateDailyCombos_fst [of ops cm n lo hi "if d = 0 then Some (day1OverallUsedItems ws) else None"
      "signatures ws" d "comboCounter ws" "source ws"] g by simp
  then show ?thesis using g by (simp add: planDay_def Let_def)
qed

lemma dayLoop_rule:
  assumes "W d ws"
    and "dayLoop ops cm numDays n lo hi d ws = Inr ws'"
    and "\<And>d ws. W d ws \<Longrightarrow> 0 \<le> d \<Longrightarrow> d < 7 \<Longrightarrow> W (d + 1) (planDay ops cm n lo hi d ws)"
  shows "\<exists>d'. W d' ws'"
  using assms
proof (induction ops cm numDays n lo hi d ws rule: dayLoop.induct)
  case (1 ops cm numDays n lo hi d ws)
  show ?case
  proof (cases "d < numDays")
    case False
    then have "ws' = ws" using "1.prems"(2) by (subst (asm) dayLoop.simps) simp
    then show ?thesis using "1.prems"(1) by blast
  next
    case True
    have rng: "0 \<le> d \<and> d < 7"
      using "1.prems"(2) True by (subst (asm) dayLoop.simps) (simp add: dayNames_def split: if_splits)
    then have ok: "\<not> \<not> (0 \<le> d \<and> d < int (length dayNames))" by (simp add: dayNames_def)
    have next_eq: "dayLoop ops cm numDays n lo hi (d + 1) (planDay ops cm n lo hi d ws) = Inr ws'"
      using "1.prems"(2) True ok by (subst (asm) dayLoop.simps) simp
    have "W (d + 1) (planDay ops cm n lo hi d ws)"
      using "1.prems"(3) [OF "1.prems"(1)] rng by simp
    then show ?thesis using "1.IH" [OF True ok _ next_eq "1.prems"(3)] by blast
  qed
qed

lemma generateMenuSuggestions_rule:
  assumes "generateMenuSuggestions ops seeded masterMenu numDays n lo hi = Inr plan"
    and "W 0 \<lparr> fullMenuPlan = [], day1OverallUsedItems = (\<lambda>name. False), signatures = Map.empty,
               comboCounter = 0, source = seeded \<rparr>"
    and "\<And>d ws. W d ws \<Longrightarrow> 0 \<le> d \<Longrightarrow> d < 7 \<Longrightarrow>
           W (d + 1) (planDay ops (categorizeMenu masterMenu) n lo hi d ws)"
  shows "\<exists>d' ws'. W d' ws' \<and> MenuPlan plan = fullMenuPlan ws'"
proof -
  obtain ws' where dl: "dayLoop ops (categorizeMenu masterMenu) numDays n lo hi 0
        \<lparr> fullMenuPlan = [], day1OverallUsedItems = (\<lambda>name. False), signatures = Map.empty,
          comboCounter = 0, source = seeded \<rparr> = Inr ws'"
    and pl: "plan = \<lparr> MenuPlan = fullMenuPlan ws' \<rparr>"
    using assms(1) by (auto simp: generateMenuSuggestions_def Let_def split: sum.splits)
  from dayLoop_rule [of W, OF assms(2) dl assms(3)] pl show ?thesis by auto
qed

section \<open>Facts about the worked examples\<close>

lemmas item_defs = burger_def wrap_def bowl_def fries_def salad_def water_def tea_def
  feast_def platter_def shake_def cake_def burger_cake_def item_def

section \<open>Unfolding the loops on concrete runs\<close>

lemma attemptLoop_accept_now:
  assumes "attempts < maxAttemptsPerCombo"
    and "drawItems mains sides drinks (rand st) = ((m, s, k), r)"
    and "accepts ops lo hi d st m s k"
  shows "attemptLoop ops mains sides drinks lo hi d attempts st =
           (True, attempts + 1, acceptCombo ops d m s k (st\<lparr>rand := r\<rparr>))"
  using assms by (subst attemptLoop.simps) simp

lemma attemptLoop_reject_now:
  assumes "attempts < maxAttemptsPerCombo"
    and "drawItems mains sides drinks (rand st) = ((m, s, k), r)"
    and "\<not> accepts ops lo hi d st m s k"
  shows "attemptLoop ops mains sides drinks lo hi d attempts st =
           attemptLoop ops mains sides drinks lo hi d (attempts + 1) (st\<lparr>rand := r\<rparr>)"
  using assms by (subst attemptLoop.simps) simp

lemma slotLoop_done:
  "\<not> i < n \<Longrightarrow> slotLoop ops mains sides drinks n lo hi d i st = st"
  by (subst slotLoop.simps) simp

lemma slotLoop_found:
  assumes "i < n" and "attemptLoop ops mains sides drinks lo hi d 0 st = (True, a, st')"
  shows "slotLoop ops mains sides drinks n lo hi d i st =
           slotLoop ops mains sides drinks n lo hi d (i + 1) st'"
  using assms by (subst slotLoop.simps) simp

lemma slotLoop_not_found:
  assumes "i < n" and "attemptLoop ops mains sides drinks lo hi d 0 st = (False, a, st')"
  shows "slotLoop ops mains sides drinks n lo hi d i st = st'"
  using assms by (subst slotLoop.simps) simp

lemma dayLoop_done: "\<not> d < numDays \<Longrightarrow> dayLoop ops cm numDays n lo hi d ws = Inr ws"
  by (subst dayLoop.simps) simp

lemma dayLoop_next:
  assumes "d < numDays" "0 \<le> d" "d < 7"
  shows "dayLoop ops cm numDays n lo hi d ws =
           dayLoop ops cm numDays n lo hi (d + 1) (planDay ops cm n lo hi d ws)"
  using assms by (subst dayLoop.simps) (simp add: dayNames_def)

text \<open>A plan of one day and one slot whose first draw is accepted.\<close>

lemma one_day_one_slot:
  assumes m: "filter (\<lambda>i. Category i = ''main'') menu = m # ms"
    and s: "filter (\<lambda>i. Category i = ''side'') menu = s # ss"
    and k: "filter (\<lambda>i. Category i = ''drink'') menu = k # ks"
    and v: "isValidCombo ops m s k lo hi (f_tolerance ops)"
    and z: "draws r (pos r) = 0" "draws r (Suc (pos r)) = 0" "draws r (Suc (Suc (pos r))) = 0"
  shows "generateMenuSuggestions ops r menu 1 1 lo hi =
           Inr \<lparr>MenuPlan = [\<lparr>Day = ''Monday'', Combos = [makeCombo ops 1 m s k]\<rparr>]\<rparr>"
proof -
  let ?cm = "categorizeMenu menu"
  let ?r = "r"
  let ?st0 = "\<lparr> dailyCombos = [], currentDayUsedItems = (\<lambda>name. False),
                usedItemsForDay1 = Some (\<lambda>name. False),
                allGeneratedComboSignatures = Map.empty, globalComboCounter = 0, rand = ?r \<rparr>"
  have pools: "slice_at ?cm ''main'' = m # ms" "slice_at ?cm ''side'' = s # ss"
    "slice_at ?cm ''drink'' = k # ks"
    by (simp_all add: slice_at_categorizeMenu m s k)
  have dr: "drawItems (m # ms) (s # ss) (k # ks) (rand ?st0) = ((m, s, k), ?r\<lparr>pos := pos r + 3\<rparr>)"
    by (simp add: drawItems_def Intn_def z)
  have acc: "accepts ops lo hi 0 ?st0 m s k"
    by (simp add: accepts_def isUniqueForDay1_def isUniqueForCurrentDayItems_def
        isUniqueWithin3Days_def v)
  have al: "attemptLoop ops (m # ms) (s # ss) (k # ks) lo hi 0 0 ?st0 =
      (True, 1, acceptCombo ops 0 m s k (?st0\<lparr>rand := ?r\<lparr>pos := pos r + 3\<rparr>\<rparr>))"
    using attemptLoop_accept_now [OF _ dr acc, of 0] by (simp add: maxAttemptsPerCombo_def)
  have sl: "slotLoop ops (m # ms) (s # ss) (k # ks) 1 lo hi 0 0 ?st0 =
      acceptCombo ops 0 m s k (?st0\<lparr>rand := ?r\<lparr>pos := pos r + 3\<rparr>\<rparr>)"
    by (simp add: slotLoop_found [OF _ al] slotLoop_done)
  have day: "dailyCombos (snd (generateDailyCombos ops ?cm 1 lo hi (Some (\<lambda>name. False))
       Map.empty 0 0 ?r)) = [makeCombo ops 1 m s k]"
    by (simp add: generateDailyCombos_def pools sl Let_def acceptCombo_def)
  have pd: "fullMenuPlan (planDay ops ?cm 1 lo hi 0
       \<lparr> fullMenuPlan = [], day1OverallUsedItems = (\<lambda>name. False), signatures = Map.empty,
         comboCounter = 0, source = ?r \<rparr>) = [\<lparr>Day = ''Monday'', Combos = [makeCombo ops 1 m s k]\<rparr>]"
    using day by (simp add: planDay_eq Let_def dayNames_def)
  show ?thesis
    by (simp add: generateMenuSuggestions_def Let_def dayLoop_next dayLoop_done pd)
qed

lemma day_first_draw_accepted:
  assumes pools: "slice_at cm ''main'' = M" "slice_at cm ''side'' = S" "slice_at cm ''drink'' = K"
    and ne: "M \<noteq> []" "S \<noteq> []" "K \<noteq> []"
    and dr: "drawItems M S K r = ((m, s, k), r')"
    and acc: "accepts ops lo hi d
        \<lparr> dailyCombos = [], currentDayUsedItems = (\<lambda>name. False), usedItemsForDay1 = u,
          allGeneratedComboSignatures = sg, globalComboCounter = cnt, rand = r \<rparr> m s k"
  shows "snd (generateDailyCombos ops cm 1 lo hi u sg d cnt r) =
     \<lparr> dailyCombos = [makeCombo ops (cnt + 1) m s k],
       currentDayUsedItems =
         (\<lambda>name. False)(ItemName m := True, ItemName s := True, ItemName k := True),
       usedItemsForDay1 =
         (case u of None \<Rightarrow> None
          | Some used \<Rightarrow> Some (used(ItemName m := True, ItemName s := True, ItemName k := True))),
       allGeneratedComboSignatures = sg(comboSignature m s k \<mapsto> d),
       globalComboCounter = cnt + 1,
       rand = r' \<rparr>"
proof -
  let ?st0 = "\<lparr> dailyCombos = [], currentDayUsedItems = (\<lambda>name. False), usedItemsForDay1 = u,
          allGeneratedComboSignatures = sg, globalComboCounter = cnt, rand = r \<rparr>"
  have dr0: "drawItems M S K (rand ?st0) = ((m, s, k), r')" using dr by simp
  have al: "attemptLoop ops M S K lo hi d 0 ?st0 =
      (True, 1, acceptCombo ops d m s k (?st0\<lparr>rand := r'\<rparr>))"
    using attemptLoop_accept_now [OF _ dr0 acc, of 0] by (simp add: maxAttemptsPerCombo_def)
  have sl: "slotLoop ops M S K 1 lo hi d 0 ?st0 = acceptCombo ops d m s k (?st0\<lparr>rand := r'\<rparr>)"
    using slotLoop_found [OF _ al, of 0 1] by (simp add: slotLoop_done)
  show ?thesis
    using ne by (simp add: generateDailyCombos_def pools sl Let_def) (simp add: acceptCombo_def Let_def)
qed

section \<open>Where the combos of a plan come from\<close>

lemma sort3_last: "sort [a, b, c] ! 2 = Max {a, b, c :: 'a::linorder}"
  by (auto simp: max_def)

lemma sort3_first: "sort [a, b, c] ! 0 = Min {a, b, c :: 'a::linorder}"
  by (auto simp: min_def)

lemma sint_sum3:
  fixes a b c :: go_int
  assumes "- (2 ^ 63) \<le> sint a + sint b + sint c" "sint a + sint b + sint c < 2 ^ 63"
  shows "sint (a + b + c) = sint a + sint b + sint c"
proof -
  have c: "signed_take_bit 63 (sint c) = sint c"
    using sint_ge [of c] sint_lt [of c] by (simp add: signed_take_bit_int_eq_self_iff)
  have "sint (a + b + c) = signed_take_bit 63 (signed_take_bit 63 (sint a + sint b) + sint c)"
    by (simp add: sint_word_ariths)
  also have "\<dots> = signed_take_bit 63 (signed_take_bit 63 (sint a + sint b)
      + signed_take_bit 63 (sint c))"
    by (simp only: c)
  also have "\<dots> = signed_take_bit 63 (sint a + sint b + sint c)"
    by (rule signed_take_bit_add)
  also have "\<dots> = sint a + sint b + sint c"
    using assms by (simp add: signed_take_bit_int_eq_self)
  finally show ?thesis .
qed

lemma isValidCombo_iff:
  "isValidCombo ops m s k lo hi tol \<longleftrightarrow>
     sint lo \<le> sint (Calories m + Calories s + Calories k)
     \<and> sint (Calories m + Calories s + Calories k) \<le> sint hi
     \<and> f_sub ops (Max {PopularityScore m, PopularityScore s, PopularityScore k})
          (Min {PopularityScore m, PopularityScore s, PopularityScore k}) \<le> tol"
proof -
  let ?ps = "sort [PopularityScore m, PopularityScore s, PopularityScore k]"
  have len: "length ?ps = 3" by simp
  have hi: "?ps ! (3 - 1) = Max {PopularityScore m, PopularityScore s, PopularityScore k}"
    using sort3_last [of "PopularityScore m" "PopularityScore s" "PopularityScore k"]
    by (simp del: sort_key_simps)
  have lo: "?ps ! 0 = Min {PopularityScore m, PopularityScore s, PopularityScore k}"
    by (rule sort3_first)
  show ?thesis
    unfolding isValidCombo_def calculateComboMetrics_def Let_def len hi lo
    by (auto simp del: Max_insert Min_insert)
qed

lemma dailyCombos_acceptCombo:
  "dailyCombos (acceptCombo ops d m s k st) =
     dailyCombos st @ [makeCombo ops (globalComboCounter st + 1) m s k]"
  by (simp add: acceptCombo_def Let_def)

lemma plan_combo_origin:
  assumes run: "generateMenuSuggestions ops seeded masterMenu numDays n lo hi = Inr plan"
    and dm: "dm \<in> set (MenuPlan plan)" and c: "c \<in> set (Combos dm)"
  shows "\<exists>m s k cnt. m \<in> set masterMenu \<and> Category m = ''main''
           \<and> s \<in> set masterMenu \<and> Category s = ''side''
           \<and> k \<in> set masterMenu \<and> Category k = ''drink''
           \<and> c = makeCombo ops cnt m s k
           \<and> isValidCombo ops m s k lo hi (f_tolerance ops)"
proof -
  define origin where "origin c \<longleftrightarrow> (\<exists>m s k cnt. m \<in> set masterMenu \<and> Category m = ''main''
           \<and> s \<in> set masterMenu \<and> Category s = ''side''
           \<and> k \<in> set masterMenu \<and> Category k = ''drink''
           \<and> c = makeCombo ops cnt m s k
           \<and> isValidCombo ops m s k lo hi (f_tolerance ops))" for c
  define P where "P st \<longleftrightarrow> (\<forall>c \<in> set (dailyCombos st). origin c)" for st :: "'a sampler"
  define W where "W d ws \<longleftrightarrow> (\<forall>dm \<in> set (fullMenuPlan ws). \<forall>c \<in> set (Combos dm). origin c)"
    for d :: int and ws :: "'a planner"
  let ?cm = "categorizeMenu masterMenu"
  have day: "P (snd (generateDailyCombos ops ?cm n lo hi u sg d cnt r))" for u sg d cnt r
  proof (rule generateDailyCombos_rule)
    show "P \<lparr> dailyCombos = [], currentDayUsedItems = (\<lambda>name. False), usedItemsForDay1 = u,
               allGeneratedComboSignatures = sg, globalComboCounter = cnt, rand = r \<rparr>"
      by (simp add: P_def)
  next
    fix st r assume "P st" then show "P (st\<lparr>rand := r\<rparr>)" by (simp add: P_def)
  next
    fix st m s k
    assume "P st" and m: "m \<in> set (slice_at ?cm ''main'')" and s: "s \<in> set (slice_at ?cm ''side'')"
      and k: "k \<in> set (slice_at ?cm ''drink'')" and acc: "accepts ops lo hi d st m s k"
    have "origin (makeCombo ops (globalComboCounter st + 1) m s k)"
      unfolding origin_def using m s k acc
      by (auto simp: slice_at_categorizeMenu accepts_def)
    then show "P (acceptCombo ops d m s k st)"
      using \<open>P st\<close> by (simp add: P_def dailyCombos_acceptCombo)
  qed
  have "\<exists>d' ws'. W d' ws' \<and> MenuPlan plan = fullMenuPlan ws'"
  proof (rule generateMenuSuggestions_rule [OF run])
    show "W 0 \<lparr> fullMenuPlan = [], day1OverallUsedItems = (\<lambda>name. False), signatures = Map.empty,
               comboCounter = 0, source = seeded \<rparr>"
      by (simp add: W_def)
  next
    fix d ws assume "W d ws"
    then show "W (d + 1) (planDay ops ?cm n lo hi d ws)"
      using day by (auto simp: W_def planDay_eq Let_def P_def)
  qed
  then have "origin c" using dm c by (auto simp: W_def)
  then show ?thesis by (simp add: origin_def)
qed

lemma makeCombo_sel [simp]:
  "Main (makeCombo ops cnt m s k) = ItemName m"
  "Side (makeCombo ops cnt m s k) = ItemName s"
  "Drink (makeCombo ops cnt m s k) = ItemName k"
  "CalorieCount (makeCombo ops cnt m s k) = Calories m + Calories s + Calories k"
  "ComboID (makeCombo ops cnt m s k) = ''combo_'' @ itoa cnt"
  by (simp_all add: makeCombo_def calculateComboMetrics_def Let_def)

lemma globalComboCounter_acceptCombo:
  "globalComboCounter (acceptCombo ops d m s k st) = globalComboCounter st + 1"
  by (simp add: acceptCombo_def Let_def)

lemma signatureOf_makeCombo [simp]:
  "signatureOf (makeCombo ops cnt m s k) = comboSignature m s k"
  by (simp add: signatureOf_def comboSignature_def del: sort_key_simps)

lemma allGeneratedComboSignatures_acceptCombo:
  "allGeneratedComboSignatures (acceptCombo ops d m s k st) =
     (allGeneratedComboSignatures st)(comboSignature m s k \<mapsto> d)"
  by (simp add: acceptCombo_def Let_def)

lemma comboNames_makeCombo [simp]:
  "comboNames (makeCombo ops cnt m s k) = {ItemName m, ItemName s, ItemName k}"
  by (simp add: comboNames_def)

lemma currentDayUsedItems_acceptCombo:
  "currentDayUsedItems (acceptCombo ops d m s k st) x \<longleftrightarrow>
     x \<in> {ItemName m, ItemName s, ItemName k} \<or> currentDayUsedItems st x"
  by (auto simp: acceptCombo_def Let_def)

lemma drawItems_rand: "snd (drawItems M S K r0) = r0\<lparr>pos := pos r0 + 3\<rparr>"
  by (simp add: drawItems_def Intn_def)

lemma rand_acceptCombo [simp]: "rand (acceptCombo ops d m s k st) = rand st"
  by (simp add: acceptCombo_def Let_def)

section \<open>Runs of the worked examples\<close>

lemma round_robin_first: "draws round_robin (pos round_robin) = 0"
  "draws round_robin (Suc (pos round_robin)) = 0"
  "draws round_robin (Suc (Suc (pos round_robin))) = 0"
  by (simp_all add: round_robin_def)

lemma run_burger:
  "generateMenuSuggestions exact_ops round_robin [burger, fries, water] 1 1 550 800 =
     Inr \<lparr>MenuPlan = [\<lparr>Day = ''Monday'', Combos = [makeCombo exact_ops 1 burger fries water]\<rparr>]\<rparr>"
  by (rule one_day_one_slot [where ms = "[]" and ss = "[]" and ks = "[]"])
    (simp_all add: round_robin_first item_defs isValidCombo_iff exact_ops_def)

lemma run_feast:
  "generateMenuSuggestions exact_ops round_robin [feast, platter, shake] 1 1 550 800 =
     Inr \<lparr>MenuPlan = [\<lparr>Day = ''Monday'', Combos = [makeCombo exact_ops 1 feast platter shake]\<rparr>]\<rparr>"
  by (rule one_day_one_slot [where ms = "[]" and ss = "[]" and ks = "[]"])
    (simp_all add: round_robin_first item_defs isValidCombo_iff exact_ops_def)

lemma run_cake:
  "generateMenuSuggestions exact_ops round_robin [cake, burger, fries, water] 1 1 550 800 =
     Inr \<lparr>MenuPlan = [\<lparr>Day = ''Monday'', Combos = [makeCombo exact_ops 1 burger fries water]\<rparr>]\<rparr>"
  by (rule one_day_one_slot [where ms = "[]" and ss = "[]" and ks = "[]"])
    (simp_all add: round_robin_first item_defs isValidCombo_iff exact_ops_def)

lemma run_burger_cake:
  "generateMenuSuggestions exact_ops round_robin [burger_cake, burger, fries, water] 1 1 550 800 =
     Inr \<lparr>MenuPlan = [\<lparr>Day = ''Monday'', Combos = [makeCombo exact_ops 1 burger fries water]\<rparr>]\<rparr>"
  by (rule one_day_one_slot [where ms = "[]" and ss = "[]" and ks = "[]"])
    (simp_all add: round_robin_first item_defs isValidCombo_iff exact_ops_def)

lemma pools7:
  "slice_at (categorizeMenu [burger, wrap, bowl, fries, salad, water, tea]) ''main'' = [burger, wrap, bowl]"
  "slice_at (categorizeMenu [burger, wrap, bowl, fries, salad, water, tea]) ''side'' = [fries, salad]"
  "slice_at (categorizeMenu [burger, wrap, bowl, fries, salad, water, tea]) ''drink'' = [water, tea]"
  by (simp_all add: slice_at_categorizeMenu item_defs)

lemma run_two_slots:
  "generateMenuSuggestions exact_ops round_robin [burger, wrap, bowl, fries, salad, water, tea]
       1 2 550 800 =
     Inr \<lparr>MenuPlan = [\<lparr>Day = ''Monday'',
            Combos = [makeCombo exact_ops 1 burger fries water,
                      makeCombo exact_ops 2 wrap salad tea]\<rparr>]\<rparr>"
proof -
  let ?cm = "categorizeMenu [burger, wrap, bowl, fries, salad, water, tea]"
  let ?M = "[burger, wrap, bowl]" and ?S = "[fries, salad]" and ?K = "[water, tea]"
  let ?st0 = "\<lparr> dailyCombos = [], currentDayUsedItems = (\<lambda>name. False),
                usedItemsForDay1 = Some (\<lambda>name. False),
                allGeneratedComboSignatures = Map.empty, globalComboCounter = 0,
                rand = round_robin \<rparr> :: real sampler"
  let ?st1 = "acceptCombo exact_ops 0 burger fries water (?st0\<lparr>rand := round_robin\<lparr>pos := 3\<rparr>\<rparr>)"
  let ?st2 = "acceptCombo exact_ops 0 wrap salad tea (?st1\<lparr>rand := round_robin\<lparr>pos := 6\<rparr>\<rparr>)"
  have dr1: "drawItems ?M ?S ?K (rand ?st0) = ((burger, fries, water), round_robin\<lparr>pos := 3\<rparr>)"
    by (simp add: drawItems_def Intn_def round_robin_def)
  have acc1: "accepts exact_ops 550 800 0 ?st0 burger fries water"
    by (simp add: accepts_def isUniqueForDay1_def isUniqueForCurrentDayItems_def
        isUniqueWithin3Days_def isValidCombo_iff) (simp add: exact_ops_def item_defs)
  have al1: "attemptLoop exact_ops ?M ?S ?K 550 800 0 0 ?st0 = (True, 1, ?st1)"
    using attemptLoop_accept_now [OF _ dr1 acc1, of 0] by (simp add: maxAttemptsPerCombo_def)
  have r1: "rand ?st1 = round_robin\<lparr>pos := 3\<rparr>" by (simp add: acceptCombo_def Let_def)
  have dr2: "drawItems ?M ?S ?K (rand ?st1) = ((wrap, salad, tea), round_robin\<lparr>pos := 6\<rparr>)"
    unfolding r1 by (simp add: drawItems_def Intn_def round_robin_def)
  have acc2: "accepts exact_ops 550 800 0 ?st1 wrap salad tea"
    by (simp add: accepts_def isUniqueForDay1_def isUniqueForCurrentDayItems_def
        isUniqueWithin3Days_def isValidCombo_iff acceptCombo_def Let_def comboSignature_def)
      (simp add: exact_ops_def item_defs)
  have al2: "attemptLoop exact_ops ?M ?S ?K 550 800 0 0 ?st1 = (True, 1, ?st2)"
    using attemptLoop_accept_now [OF _ dr2 acc2, of 0] by (simp add: maxAttemptsPerCombo_def)
  have sl: "slotLoop exact_ops ?M ?S ?K 2 550 800 0 0 ?st0 = ?st2"
    using slotLoop_found [OF _ al1, of 0 2] slotLoop_found [OF _ al2, of 1 2]
    by (simp add: slotLoop_done)
  have day: "dailyCombos (snd (generateDailyCombos exact_ops ?cm 2 550 800 (Some (\<lambda>name. False))
       Map.empty 0 0 round_robin)) =
      [makeCombo exact_ops 1 burger fries water, makeCombo exact_ops 2 wrap salad tea]"
    by (simp add: generateDailyCombos_def pools7 sl Let_def) (simp add: acceptCombo_def Let_def)
  have pd: "fullMenuPlan (planDay exact_ops ?cm 2 550 800 0
       \<lparr> fullMenuPlan = [], day1OverallUsedItems = (\<lambda>name. False), signatures = Map.empty,
         comboCounter = 0, source = round_robin \<rparr>) =
       [\<lparr>Day = ''Monday'', Combos = [makeCombo exact_ops 1 burger fries water,
                      makeCombo exact_ops 2 wrap salad tea]\<rparr>]"
    using day by (simp add: planDay_eq Let_def dayNames_def)
  show ?thesis
    by (simp add: generateMenuSuggestions_def Let_def dayLoop_next dayLoop_done pd)
qed

lemma pools5:
  "slice_at (categorizeMenu [burger, wrap, bowl, fries, water]) ''main'' = [burger, wrap, bowl]"
  "slice_at (categorizeMenu [burger, wrap, bowl, fries, water]) ''side'' = [fries]"
  "slice_at (categorizeMenu [burger, wrap, bowl, fries, water]) ''drink'' = [water]"
  by (simp_all add: slice_at_categorizeMenu item_defs)

lemma signatures5:
  "comboSignature burger fries water = ''Fries_Veggie Burger_Water''"
  "comboSignature wrap fries water = ''Fries_Paneer Wrap_Water''"
  "comboSignature bowl fries water = ''Fries_Rice Bowl_Water''"
  by (simp_all add: comboSignature_def item_defs)

lemma valid5:
  "isValidCombo exact_ops burger fries water 550 800 (f_tolerance exact_ops)"
  "isValidCombo exact_ops wrap fries water 550 800 (f_tolerance exact_ops)"
  "isValidCombo exact_ops bowl fries water 550 800 (f_tolerance exact_ops)"
  by (simp_all add: isValidCombo_iff exact_ops_def item_defs)

lemma run_four_days:
  "generateMenuSuggestions exact_ops round_robin [burger, wrap, bowl, fries, water] 4 1 550 800 =
     Inr \<lparr>MenuPlan =
       [\<lparr>Day = ''Monday'', Combos = [makeCombo exact_ops 1 burger fries water]\<rparr>,
        \<lparr>Day = ''Tuesday'', Combos = [makeCombo exact_ops 2 wrap fries water]\<rparr>,
        \<lparr>Day = ''Wednesday'', Combos = [makeCombo exact_ops 3 bowl fries water]\<rparr>,
        \<lparr>Day = ''Thursday'', Combos = [makeCombo exact_ops 4 burger fries water]\<rparr>]\<rparr>"
proof -
  let ?cm = "categorizeMenu [burger, wrap, bowl, fries, water]"
  let ?M = "[burger, wrap, bowl]" and ?S = "[fries]" and ?K = "[water]"
  let ?u1 = "(\<lambda>name. False)(ItemName burger := True, ItemName fries := True, ItemName water := True)"
  let ?c1 = "makeCombo exact_ops 1 burger fries water"
  let ?c2 = "makeCombo exact_ops 2 wrap fries water"
  let ?c3 = "makeCombo exact_ops 3 bowl fries water"
  let ?c4 = "makeCombo exact_ops 4 burger fries water"
  let ?sg1 = "Map.empty(comboSignature burger fries water \<mapsto> (0::int))"
  let ?sg2 = "?sg1(comboSignature wrap fries water \<mapsto> 1)"
  let ?sg3 = "?sg2(comboSignature bowl fries water \<mapsto> 2)"
  let ?ws0 = "\<lparr> fullMenuPlan = [], day1OverallUsedItems = (\<lambda>name. False), signatures = Map.empty,
                comboCounter = 0, source = round_robin \<rparr> :: real planner"
  let ?ws1 = "\<lparr> fullMenuPlan = [\<lparr>Day = ''Monday'', Combos = [?c1]\<rparr>],
                day1OverallUsedItems = ?u1, signatures = ?sg1,
                comboCounter = 1, source = round_robin\<lparr>pos := 3\<rparr> \<rparr>"
  let ?ws2 = "\<lparr> fullMenuPlan = [\<lparr>Day = ''Monday'', Combos = [?c1]\<rparr>,
                                 \<lparr>Day = ''Tuesday'', Combos = [?c2]\<rparr>],
                day1OverallUsedItems = ?u1, signatures = ?sg2,
                comboCounter = 2, source = round_robin\<lparr>pos := 6\<rparr> \<rparr>"
  let ?ws3 = "\<lparr> fullMenuPlan = [\<lparr>Day = ''Monday'', Combos = [?c1]\<rparr>,
                                 \<lparr>Day = ''Tuesday'', Combos = [?c2]\<rparr>,
                                 \<lparr>Day = ''Wednesday'', Combos = [?c3]\<rparr>],
                day1OverallUsedItems = ?u1, signatures = ?sg3,
                comboCounter = 3, source = round_robin\<lparr>pos := 9\<rparr> \<rparr>"
  have d0: "snd (generateDailyCombos exact_ops ?cm 1 550 800 (Some (\<lambda>name. False)) Map.empty 0 0
        round_robin) = \<lparr> dailyCombos = [?c1],
       currentDayUsedItems = ?u1, usedItemsForDay1 = Some ?u1,
       allGeneratedComboSignatures = ?sg1, globalComboCounter = 1,
       rand = round_robin\<lparr>pos := 3\<rparr> \<rparr>"
    using day_first_draw_accepted [OF pools5, of round_robin burger fries water
        "round_robin\<lparr>pos := 3\<rparr>" exact_ops 550 800 0 "Some (\<lambda>name. False)" Map.empty 0]
    by (simp add: drawItems_def Intn_def round_robin_def accepts_def isUniqueForDay1_def
        isUniqueForCurrentDayItems_def isUniqueWithin3Days_def valid5)
  have p0: "planDay exact_ops ?cm 1 550 800 0 ?ws0 = ?ws1"
    by (simp add: planDay_eq Let_def d0 dayNames_def)
  have d1: "snd (generateDailyCombos exact_ops ?cm 1 550 800 None ?sg1 1 1
        (round_robin\<lparr>pos := 3\<rparr>)) = \<lparr> dailyCombos = [?c2],
       currentDayUsedItems =
         (\<lambda>name. False)(ItemName wrap := True, ItemName fries := True, ItemName water := True),
       usedItemsForDay1 = None,
       allGeneratedComboSignatures = ?sg2, globalComboCounter = 2,
       rand = round_robin\<lparr>pos := 6\<rparr> \<rparr>"
    using day_first_draw_accepted [OF pools5, of "round_robin\<lparr>pos := 3\<rparr>" wrap fries water
        "round_robin\<lparr>pos := 6\<rparr>" exact_ops 550 800 1 None ?sg1 1]
    by (simp add: drawItems_def Intn_def round_robin_def accepts_def isUniqueForDay1_def
        isUniqueForCurrentDayItems_def isUniqueWithin3Days_def valid5 signatures5)
  have p1: "planDay exact_ops ?cm 1 550 800 1 ?ws1 = ?ws2"
    by (simp add: planDay_eq Let_def d1 dayNames_def)
  have d2: "snd (generateDailyCombos exact_ops ?cm 1 550 800 None ?sg2 2 2
        (round_robin\<lparr>pos := 6\<rparr>)) = \<lparr> dailyCombos = [?c3],
       currentDayUsedItems =
         (\<lambda>name. False)(ItemName bowl := True, ItemName fries := True, ItemName water := True),
       usedItemsForDay1 = None,
       allGeneratedComboSignatures = ?sg3, globalComboCounter = 3,
       rand = round_robin\<lparr>pos := 9\<rparr> \<rparr>"
    using day_first_draw_accepted [OF pools5, of "round_robin\<lparr>pos := 6\<rparr>" bowl fries water
        "round_robin\<lparr>pos := 9\<rparr>" exact_ops 550 800 2 None ?sg2 2]
    by (simp add: drawItems_def Intn_def round_robin_def accepts_def isUniqueForDay1_def
        isUniqueForCurrentDayItems_def isUniqueWithin3Days_def valid5 signatures5)
  have p2: "planDay exact_ops ?cm 1 550 800 2 ?ws2 = ?ws3"
    by (simp add: planDay_eq Let_def d2 dayNames_def)
  have d3: "dailyCombos (snd (generateDailyCombos exact_ops ?cm 1 550 800 None ?sg3 3 3
        (round_robin\<lparr>pos := 9\<rparr>))) = [?c4]"
    using day_first_draw_accepted [OF pools5, of "round_robin\<lparr>pos := 9\<rparr>" burger fries water
        "round_robin\<lparr>pos := 12\<rparr>" exact_ops 550 800 3 None ?sg3 3]
    by (simp add: drawItems_def Intn_def round_robin_def accepts_def isUniqueForDay1_def
        isUniqueForCurrentDayItems_def isUniqueWithin3Days_def valid5 signatures5)
  have p3: "fullMenuPlan (planDay exact_ops ?cm 1 550 800 3 ?ws3) =
      [\<lparr>Day = ''Monday'', Combos = [?c1]\<rparr>, \<lparr>Day = ''Tuesday'', Combos = [?c2]\<rparr>,
       \<lparr>Day = ''Wednesday'', Combos = [?c3]\<rparr>, \<lparr>Day = ''Thursday'', Combos = [?c4]\<rparr>]"
    by (simp add: planDay_eq Let_def d3 dayNames_def)
  have "dayLoop exact_ops ?cm 4 1 550 800 0 ?ws0 =
      Inr (planDay exact_ops ?cm 1 550 800 3 ?ws3)"
    using dayLoop_next [of 0 4 exact_ops ?cm 1 550 800 ?ws0]
      dayLoop_next [of 1 4 exact_ops ?cm 1 550 800 ?ws1]
      dayLoop_next [of 2 4 exact_ops ?cm 1 550 800 ?ws2]
      dayLoop_next [of 3 4 exact_ops ?cm 1 550 800 ?ws3]
      dayLoop_done [of 4 4 exact_ops ?cm 1 550 800 "planDay exact_ops ?cm 1 550 800 3 ?ws3"]
    by (simp add: p0 p1 p2)
  then show ?thesis
    by (simp add: generateMenuSuggestions_def Let_def p3)
qed

section \<open>Termination of the loop over the days\<close>

lemma dayLoop_panics:
  assumes "7 < numDays" "0 \<le> d" "d \<le> 7"
  shows "dayLoop ops cm numDays n lo hi d ws = Inl IndexOutOfRange"
  using assms
proof (induction ops cm numDays n lo hi d ws rule: dayLoop.induct)
  case (1 ops cm numDays n lo hi d ws)
  show ?case
  proof (cases "d = 7")
    case True
    then show ?thesis using "1.prems" by (subst dayLoop.simps) (simp add: dayNames_def)
  next
    case False
    then have lt: "d < numDays" and ok: "\<not> \<not> (0 \<le> d \<and> d < int (length dayNames))"
      using "1.prems" by (simp_all add: dayNames_def)
    have "dayLoop ops cm numDays n lo hi (d + 1) (planDay ops cm n lo hi d ws) = Inl IndexOutOfRange"
      using "1.IH" [OF lt ok] "1.prems" False by simp
    then show ?thesis using lt ok by (subst dayLoop.simps) simp
  qed
qed

lemma fullMenuPlan_planDay:
  "map Day (fullMenuPlan (planDay ops cm n lo hi d ws)) = map Day (fullMenuPlan ws) @ [dayNames ! nat d]"
  by (simp add: planDay_eq Let_def)

lemma dayLoop_total:
  assumes "0 \<le> d" "numDays \<le> 7"
  shows "\<exists>ws'. dayLoop ops cm numDays n lo hi d ws = Inr ws'
           \<and> map Day (fullMenuPlan ws') =
               map Day (fullMenuPlan ws) @ map (\<lambda>i. dayNames ! i) [nat d..<nat numDays]"
  using assms
proof (induction ops cm numDays n lo hi d ws rule: dayLoop.induct)
  case (1 ops cm numDays n lo hi d ws)
  show ?case
  proof (cases "d < numDays")
    case False
    then show ?thesis by (subst dayLoop.simps) simp
  next
    case True
    then have ok: "\<not> \<not> (0 \<le> d \<and> d < int (length dayNames))"
      using "1.prems" by (simp add: dayNames_def)
    from "1.IH" [OF True ok] "1.prems"
    obtain ws' where step:
      "dayLoop ops cm numDays n lo hi (d + 1) (planDay ops cm n lo hi d ws) = Inr ws'"
      and days: "map Day (fullMenuPlan ws') =
          map Day (fullMenuPlan (planDay ops cm n lo hi d ws))
            @ map (\<lambda>i. dayNames ! i) [nat (d + 1)..<nat numDays]"
      by auto
    have "nat (d + 1) = Suc (nat d)" using "1.prems" by simp
    moreover have "nat d < nat numDays" using True "1.prems" by simp
    ultimately have "[nat d..<nat numDays] = nat d # [nat (d + 1)..<nat numDays]"
      by (simp add: upt_conv_Cons)
    then have "map Day (fullMenuPlan ws') =
        map Day (fullMenuPlan ws) @ map (\<lambda>i. dayNames ! i) [nat d..<nat numDays]"
      using days by (simp add: fullMenuPlan_planDay)
    moreover have "dayLoop ops cm numDays n lo hi d ws = Inr ws'"
      using step True ok by (subst dayLoop.simps) simp
    ultimately show ?thesis by blast
  qed
qed

lemma generateMenuSuggestions_total:
  assumes "numDays \<le> 7"
  shows "\<exists>plan. generateMenuSuggestions ops seeded masterMenu numDays n lo hi = Inr plan
           \<and> map Day (MenuPlan plan) = take (nat numDays) dayNames"
proof -
  let ?ws0 = "\<lparr> fullMenuPlan = [], day1OverallUsedItems = (\<lambda>name. False), signatures = Map.empty,
                comboCounter = 0, source = seeded \<rparr>"
  from dayLoop_total [of 0 numDays ops "categorizeMenu masterMenu" n lo hi ?ws0] assms
  obtain ws' where dl: "dayLoop ops (categorizeMenu masterMenu) numDays n lo hi 0 ?ws0 = Inr ws'"
    and days: "map Day (fullMenuPlan ws') = map (\<lambda>i. dayNames ! i) [0..<nat numDays]"
    by auto
  have "nat numDays \<le> length dayNames" using assms by (simp add: dayNames_def)
  then have "map (\<lambda>i. dayNames ! i) [0..<nat numDays] = take (nat numDays) dayNames"
    by (metis map_nth take_map take_upt add_0)
  then show ?thesis using dl days by (simp add: generateMenuSuggestions_def Let_def)
qed

section \<open>Calorie band and popularity spread\<close>

text \<open>
  C1, as amended: every accepted combo of a plan is made of a main, a side and a drink of the
  catalog whose calorie counts, added in 64-bit wrap-around arithmetic (the combo's calorie
  count), lie in [minCalories, maxCalories] inclusive, and the spread of whose popularity
  scores, the float64 difference of the largest and the smallest, does not exceed the
  tolerance of the planner. When the sum of the three calorie counts fits in 64 bits, it is
  that sum which lies in the band.
\<close>

theorem accepted_combo_within_bounds:
  assumes "generateMenuSuggestions ops seeded masterMenu numDays numCombosPerDay
             minCalories maxCalories = Inr plan"
    and "dm \<in> set (MenuPlan plan)" and "c \<in> set (Combos dm)"
  shows "\<exists>mainItem sideItem drinkItem.
           mainItem \<in> set masterMenu \<and> Category mainItem = ''main'' \<and> Main c = ItemName mainItem
         \<and> sideItem \<in> set masterMenu \<and> Category sideItem = ''side'' \<and> Side c = ItemName sideItem
         \<and> drinkItem \<in> set masterMenu \<and> Category drinkItem = ''drink''
         \<and> Drink c = ItemName drinkItem
         \<and> CalorieCount c = Calories mainItem + Calories sideItem + Calories drinkItem
         \<and> sint minCalories \<le> sint (CalorieCount c) \<and> sint (CalorieCount c) \<le> sint maxCalories
         \<and> f_sub ops
             (Max {PopularityScore mainItem, PopularityScore sideItem, PopularityScore drinkItem})
             (Min {PopularityScore mainItem, PopularityScore sideItem, PopularityScore drinkItem})
             \<le> f_tolerance ops
         \<and> (- (2 ^ 63) \<le> sint (Calories mainItem) + sint (Calories sideItem)
                            + sint (Calories drinkItem)
              \<and> sint (Calories mainItem) + sint (Calories sideItem) + sint (Calories drinkItem)
                  < 2 ^ 63
            \<longrightarrow> sint minCalories
                  \<le> sint (Calories mainItem) + sint (Calories sideItem) + sint (Calories drinkItem)
              \<and> sint (Calories mainItem) + sint (Calories sideItem) + sint (Calories drinkItem)
                  \<le> sint maxCalories)"
proof -
  from plan_combo_origin [OF assms]
  obtain m s k cnt where o: "m \<in> set masterMenu" "Category m = ''main''"
    "s \<in> set masterMenu" "Category s = ''side''" "k \<in> set masterMenu" "Category k = ''drink''"
    "c = makeCombo ops cnt m s k"
    and v: "isValidCombo ops m s k minCalories maxCalories (f_tolerance ops)"
    by blast
  from v have b: "sint minCalories \<le> sint (Calories m + Calories s + Calories k)"
    "sint (Calories m + Calories s + Calories k) \<le> sint maxCalories"
    "f_sub ops (Max {PopularityScore m, PopularityScore s, PopularityScore k})
          (Min {PopularityScore m, PopularityScore s, PopularityScore k}) \<le> f_tolerance ops"
    by (simp_all only: isValidCombo_iff)
  have "- (2 ^ 63) \<le> sint (Calories m) + sint (Calories s) + sint (Calories k)
              \<and> sint (Calories m) + sint (Calories s) + sint (Calories k) < 2 ^ 63
            \<longrightarrow> sint minCalories \<le> sint (Calories m) + sint (Calories s) + sint (Calories k)
              \<and> sint (Calories m) + sint (Calories s) + sint (Calories k) \<le> sint maxCalories"
  proof
    assume "- (2 ^ 63) \<le> sint (Calories m) + sint (Calories s) + sint (Calories k)
        \<and> sint (Calories m) + sint (Calories s) + sint (Calories k) < 2 ^ 63"
    then have "sint (Calories m + Calories s + Calories k) =
        sint (Calories m) + sint (Calories s) + sint (Calories k)"
      using sint_sum3 [of "Calories m" "Calories s" "Calories k"] by blast
    with b(1,2)
    show "sint minCalories \<le> sint (Calories m) + sint (Calories s) + sint (Calories k)
        \<and> sint (Calories m) + sint (Calories s) + sint (Calories k) \<le> sint maxCalories"
      by simp
  qed
  with o b show ?thesis
    by (intro exI [of _ m] exI [of _ s] exI [of _ k]) (simp only: makeCombo_sel simp_thms)
qed

theorem accepted_combo_within_bounds_witness:
  "generateMenuSuggestions exact_ops round_robin [burger, fries, water] 1 1 550 800 = Inr \<lparr>MenuPlan = [\<lparr>Day = ''Monday'', Combos = [makeCombo exact_ops 1 burger fries water]\<rparr>]\<rparr>
   \<and> \<lparr>Day = ''Monday'', Combos = [makeCombo exact_ops 1 burger fries water]\<rparr> \<in> set (MenuPlan \<lparr>MenuPlan = [\<lparr>Day = ''Monday'', Combos = [makeCombo exact_ops 1 burger fries water]\<rparr>]\<rparr>)
   \<and> makeCombo exact_ops 1 burger fries water \<in> set (Combos \<lparr>Day = ''Monday'', Combos = [makeCombo exact_ops 1 burger fries water]\<rparr>)
   \<and> (\<exists>mainItem sideItem drinkItem.
           mainItem \<in> set [burger, fries, water] \<and> Category mainItem = ''main'' \<and> Main (makeCombo exact_ops 1 burger fries water) = ItemName mainItem
         \<and> sideItem \<in> set [burger, fries, water] \<and> Category sideItem = ''side'' \<and> Side (makeCombo exact_ops 1 burger fries water) = ItemName sideItem
         \<and> drinkItem \<in> set [burger, fries, water] \<and> Category drinkItem = ''drink''
         \<and> Drink (makeCombo exact_ops 1 burger fries water) = ItemName drinkItem
         \<and> CalorieCount (makeCombo exact_ops 1 burger fries water) = Calories mainItem + Calories sideItem + Calories drinkItem
         \<and> sint (550 :: go_int) \<le> sint (CalorieCount (makeCombo exact_ops 1 burger fries water)) \<and> sint (CalorieCount (makeCombo exact_ops 1 burger fries water)) \<le> sint (800 :: go_int)
         \<and> f_sub exact_ops
             (Max {PopularityScore mainItem, PopularityScore sideItem, PopularityScore drinkItem})
             (Min {PopularityScore mainItem, PopularityScore sideItem, PopularityScore drinkItem})
             \<le> f_tolerance exact_ops
         \<and> (- (2 ^ 63) \<le> sint (Calories mainItem) + sint (Calories sideItem)
                            + sint (Calories drinkItem)
              \<and> sint (Calories mainItem) + sint (Calories sideItem) + sint (Calories drinkItem)
                  < 2 ^ 63
            \<longrightarrow> sint (550 :: go_int)
                  \<le> sint (Calories mainItem) + sint (Calories sideItem) + sint (Calories drinkItem)
              \<and> sint (Calories mainItem) + sint (Calories sideItem) + sint (Calories drinkItem)
                  \<le> sint (800 :: go_int)))"
proof -
  have dm: "\<lparr>Day = ''Monday'', Combos = [makeCombo exact_ops 1 burger fries water]\<rparr> \<in> set (MenuPlan \<lparr>MenuPlan = [\<lparr>Day = ''Monday'', Combos = [makeCombo exact_ops 1 burger fries water]\<rparr>]\<rparr>)" by simp
  have c: "makeCombo exact_ops 1 burger fries water \<in> set (Combos \<lparr>Day = ''Monday'', Combos = [makeCombo exact_ops 1 burger fries water]\<rparr>)" by simp
  from accepted_combo_within_bounds [OF run_burger dm c] run_burger dm c
  show ?thesis by blast
qed

text \<open>
  C1 as stated, for the sum of the three calorie counts as integers, fails: three items with
  counts \<open>2 ^ 63 - 1\<close>, \<open>2 ^ 63 - 1\<close> and 652 are accepted for the band [550, 800] with the
  calorie count 650, while their counts add up to 18446744073709552266.
\<close>

theorem calorie_sum_wraps:
  "generateMenuSuggestions exact_ops round_robin [feast, platter, shake] 1 1 550 800 =
     Inr \<lparr>MenuPlan = [\<lparr>Day = ''Monday'', Combos = [makeCombo exact_ops 1 feast platter shake]\<rparr>]\<rparr>
   \<and> CalorieCount (makeCombo exact_ops 1 feast platter shake) = 650
   \<and> sint (Calories feast) + sint (Calories platter) + sint (Calories shake)
       = 18446744073709552266
   \<and> \<not> (sint (Calories feast) + sint (Calories platter) + sint (Calories shake)
          \<le> sint (800 :: go_int))"
  by (simp add: run_feast) (simp add: item_defs)

section \<open>Repetition of a combo within three days\<close>

lemma accepts_signature:
  assumes "accepts ops lo hi d st m s k"
    and "allGeneratedComboSignatures st (comboSignature m s k) = Some l"
  shows "l + 3 \<le> d"
  using assms by (auto simp: accepts_def isUniqueWithin3Days_def split: if_splits)

text \<open>What one day does to the signatures, given the days before it.\<close>

lemma day_signatures:
  fixes plan :: "'a::linorder DailyMenu list" and st' :: "'a sampler"
  assumes old: "\<forall>j < length plan. \<forall>c \<in> set (Combos (plan ! j)).
                 \<exists>l. sg (signatureOf c) = Some l \<and> int j \<le> l \<and> l < d"
    and len: "int (length plan) = d"
    and st': "st' = snd (generateDailyCombos ops cm n lo hi u sg d cnt r)"
  shows "(\<forall>j < length plan. \<forall>c \<in> set (Combos (plan ! j)).
            \<exists>l. allGeneratedComboSignatures st' (signatureOf c) = Some l \<and> int j \<le> l \<and> l \<le> d)
       \<and> (\<forall>c \<in> set (dailyCombos st'). allGeneratedComboSignatures st' (signatureOf c) = Some d)
       \<and> distinct (map signatureOf (dailyCombos st'))
       \<and> (\<forall>j < length plan. \<forall>a \<in> set (Combos (plan ! j)). \<forall>b \<in> set (dailyCombos st').
            signatureOf a = signatureOf b \<longrightarrow> int j + 3 \<le> d)"
proof -
  define P where "P st \<longleftrightarrow>
      (\<forall>j < length plan. \<forall>c \<in> set (Combos (plan ! j)).
            \<exists>l. allGeneratedComboSignatures st (signatureOf c) = Some l \<and> int j \<le> l \<and> l \<le> d)
       \<and> (\<forall>c \<in> set (dailyCombos st). allGeneratedComboSignatures st (signatureOf c) = Some d)
       \<and> distinct (map signatureOf (dailyCombos st))
       \<and> (\<forall>j < length plan. \<forall>a \<in> set (Combos (plan ! j)). \<forall>b \<in> set (dailyCombos st).
            signatureOf a = signatureOf b \<longrightarrow> int j + 3 \<le> d)"
    for st :: "'a sampler"
  have "P (snd (generateDailyCombos ops cm n lo hi u sg d cnt r))"
  proof (rule generateDailyCombos_rule)
    show "P \<lparr> dailyCombos = [], currentDayUsedItems = (\<lambda>name. False), usedItemsForDay1 = u,
               allGeneratedComboSignatures = sg, globalComboCounter = cnt, rand = r \<rparr>"
      using old by (fastforce simp: P_def)
  next
    fix st r assume "P st" then show "P (st\<lparr>rand := r\<rparr>)" by (simp add: P_def)
  next
    fix st m s k
    assume P: "P st" and acc: "accepts ops lo hi d st m s k"
    let ?sig = "comboSignature m s k"
    let ?st = "acceptCombo ops d m s k st"
    have A: "\<exists>l. allGeneratedComboSignatures ?st (signatureOf c) = Some l \<and> int j \<le> l \<and> l \<le> d"
      if "j < length plan" "c \<in> set (Combos (plan ! j))" for j c
    proof (cases "signatureOf c = ?sig")
      case True
      then show ?thesis using that len by (simp add: allGeneratedComboSignatures_acceptCombo)
    next
      case False
      then show ?thesis using that P by (simp add: allGeneratedComboSignatures_acceptCombo P_def)
    qed
    have B: "allGeneratedComboSignatures ?st (signatureOf c) = Some d"
      if "c \<in> set (dailyCombos ?st)" for c
      using that P by (auto simp: allGeneratedComboSignatures_acceptCombo P_def
          dailyCombos_acceptCombo)
    have fresh: "signatureOf c \<noteq> ?sig" if "c \<in> set (dailyCombos st)" for c
    proof
      assume "signatureOf c = ?sig"
      then have "allGeneratedComboSignatures st ?sig = Some d" using that P by (auto simp: P_def)
      from accepts_signature [OF acc this] show False by simp
    qed
    have "?sig \<notin> signatureOf ` set (dailyCombos st)"
    proof
      assume "?sig \<in> signatureOf ` set (dailyCombos st)"
      then obtain c where "c \<in> set (dailyCombos st)" "signatureOf c = ?sig"
        by (auto simp: image_iff)
      then show False using fresh [of c] by simp
    qed
    then have C: "distinct (map signatureOf (dailyCombos ?st))"
      using P by (simp add: P_def dailyCombos_acceptCombo)
    have D: "int j + 3 \<le> d"
      if j: "j < length plan" and a: "a \<in> set (Combos (plan ! j))"
        and b: "b \<in> set (dailyCombos ?st)" and eq: "signatureOf a = signatureOf b" for j a b
    proof (cases "b \<in> set (dailyCombos st)")
      case True
      then show ?thesis using j a eq P by (auto simp: P_def)
    next
      case False
      then have sa: "signatureOf a = ?sig" using b eq by (auto simp: dailyCombos_acceptCombo)
      from P j a obtain l where "allGeneratedComboSignatures st (signatureOf a) = Some l"
        and "int j \<le> l"
        unfolding P_def by blast
      then show ?thesis using accepts_signature [OF acc, of l] sa by simp
    qed
    show "P ?st"
      unfolding P_def using A B C D by blast
  qed
  then show ?thesis by (simp add: P_def st')
qed

lemma week_signatures:
  assumes run: "generateMenuSuggestions ops seeded masterMenu numDays n lo hi = Inr plan"
  shows "(\<forall>j < length (MenuPlan plan). distinct (map signatureOf (Combos (MenuPlan plan ! j))))
       \<and> (\<forall>i j. i < j \<longrightarrow> j < length (MenuPlan plan) \<longrightarrow>
            (\<forall>a \<in> set (Combos (MenuPlan plan ! i)). \<forall>b \<in> set (Combos (MenuPlan plan ! j)).
               signatureOf a = signatureOf b \<longrightarrow> i + 3 \<le> j))"
proof -
  define A where "A d ws \<longleftrightarrow> (\<forall>j < length (fullMenuPlan ws). \<forall>c \<in> set (Combos (fullMenuPlan ws ! j)).
      \<exists>l. signatures ws (signatureOf c) = Some l \<and> int j \<le> l \<and> l < d)"
    for d :: int and ws :: "'a planner"
  define B where "B pl \<longleftrightarrow> (\<forall>j < length pl. distinct (map signatureOf (Combos (pl ! j))))"
    for pl :: "'a DailyMenu list"
  define C where "C pl \<longleftrightarrow> (\<forall>i j. i < j \<longrightarrow> j < length pl \<longrightarrow>
            (\<forall>a \<in> set (Combos (pl ! i)). \<forall>b \<in> set (Combos (pl ! j)).
               signatureOf a = signatureOf b \<longrightarrow> i + 3 \<le> j))"
    for pl :: "'a DailyMenu list"
  define W where "W d ws \<longleftrightarrow> int (length (fullMenuPlan ws)) = d \<and> A d ws
      \<and> B (fullMenuPlan ws) \<and> C (fullMenuPlan ws)"
    for d :: int and ws :: "'a planner"
  let ?cm = "categorizeMenu masterMenu"
  have "\<exists>d' ws'. W d' ws' \<and> MenuPlan plan = fullMenuPlan ws'"
  proof (rule generateMenuSuggestions_rule [OF run])
    show "W 0 \<lparr> fullMenuPlan = [], day1OverallUsedItems = (\<lambda>name. False), signatures = Map.empty,
               comboCounter = 0, source = seeded \<rparr>"
      by (simp add: W_def A_def B_def C_def)
  next
    fix d ws assume W: "W d ws"
    let ?pl = "fullMenuPlan ws"
    let ?st = "snd (generateDailyCombos ops ?cm n lo hi
                 (if d = 0 then Some (day1OverallUsedItems ws) else None)
                 (signatures ws) d (comboCounter ws) (source ws))"
    let ?ws = "planDay ops ?cm n lo hi d ws"
    from W have len: "int (length ?pl) = d" and A: "A d ws" and B: "B ?pl" and C: "C ?pl"
      by (simp_all add: W_def)
    have day: "(\<forall>j < length ?pl. \<forall>c \<in> set (Combos (?pl ! j)).
            \<exists>l. allGeneratedComboSignatures ?st (signatureOf c) = Some l \<and> int j \<le> l \<and> l \<le> d)
       \<and> (\<forall>c \<in> set (dailyCombos ?st). allGeneratedComboSignatures ?st (signatureOf c) = Some d)
       \<and> distinct (map signatureOf (dailyCombos ?st))
       \<and> (\<forall>j < length ?pl. \<forall>a \<in> set (Combos (?pl ! j)). \<forall>b \<in> set (dailyCombos ?st).
            signatureOf a = signatureOf b \<longrightarrow> int j + 3 \<le> d)"
      by (rule day_signatures [OF A [unfolded A_def] len refl])
    have pl': "fullMenuPlan ?ws = ?pl @ [\<lparr> Day = dayNames ! nat d, Combos = dailyCombos ?st \<rparr>]"
      and sg': "signatures ?ws = allGeneratedComboSignatures ?st"
      by (simp_all add: planDay_eq Let_def)
    have nth: "Combos (fullMenuPlan ?ws ! j) =
        (if j < length ?pl then Combos (?pl ! j) else dailyCombos ?st)"
      if "j < length (fullMenuPlan ?ws)" for j
      using that by (auto simp: pl' nth_append less_Suc_eq)
    have len': "int (length (fullMenuPlan ?ws)) = d + 1" using len by (simp add: pl')
    have A': "A (d + 1) ?ws"
      unfolding A_def
    proof (intro allI impI ballI)
      fix j c assume j: "j < length (fullMenuPlan ?ws)" and c: "c \<in> set (Combos (fullMenuPlan ?ws ! j))"
      show "\<exists>l. signatures ?ws (signatureOf c) = Some l \<and> int j \<le> l \<and> l < d + 1"
      proof (cases "j < length ?pl")
        case True
        then have "c \<in> set (Combos (?pl ! j))" using c nth [OF j] by simp
        with day True obtain l where "allGeneratedComboSignatures ?st (signatureOf c) = Some l"
          "int j \<le> l" "l \<le> d" by blast
        then show ?thesis by (simp add: sg')
      next
        case False
        then have "c \<in> set (dailyCombos ?st)" using c nth [OF j] by simp
        with day have "allGeneratedComboSignatures ?st (signatureOf c) = Some d" by blast
        moreover have "int j = d" using False j len by (simp add: pl')
        ultimately show ?thesis by (simp add: sg')
      qed
    qed
    have B': "B (fullMenuPlan ?ws)"
      unfolding B_def
    proof (intro allI impI)
      fix j assume j: "j < length (fullMenuPlan ?ws)"
      show "distinct (map signatureOf (Combos (fullMenuPlan ?ws ! j)))"
        using B day nth [OF j] by (auto simp: B_def)
    qed
    have C': "C (fullMenuPlan ?ws)"
      unfolding C_def
    proof (intro allI impI ballI)
      fix i j a b
      assume ij: "i < j" and j: "j < length (fullMenuPlan ?ws)"
        and a: "a \<in> set (Combos (fullMenuPlan ?ws ! i))"
        and b: "b \<in> set (Combos (fullMenuPlan ?ws ! j))"
        and eq: "signatureOf a = signatureOf b"
      have i: "i < length ?pl" using ij j by (simp add: pl')
      then have a': "a \<in> set (Combos (?pl ! i))" using a nth [of i] by (simp add: pl')
      show "i + 3 \<le> j"
      proof (cases "j < length ?pl")
        case True
        then have "b \<in> set (Combos (?pl ! j))" using b nth [OF j] by simp
        then show ?thesis using C ij True a' eq unfolding C_def by blast
      next
        case False
        then have "b \<in> set (dailyCombos ?st)" using b nth [OF j] by simp
        with day i a' eq have "int i + 3 \<le> d" by blast
        moreover have "int j = d" using False j len by (simp add: pl')
        ultimately show ?thesis by simp
      qed
    qed
    show "W (d + 1) ?ws"
      unfolding W_def using len' A' B' C' by blast
  qed
  then obtain ws' :: "'a planner" where "B (fullMenuPlan ws')" "C (fullMenuPlan ws')"
    and "MenuPlan plan = fullMenuPlan ws'"
    unfolding W_def by blast
  then show ?thesis unfolding B_def C_def by simp
qed

text \<open>
  C2: two accepted combos of one run (at different places of the plan) that have the same
  signature were accepted on days whose indices differ by at least 3; and a candidate whose
  signature was last accepted on day d is rejected on every day d' with d' - d < 3.
\<close>

theorem same_signature_three_days_apart:
  "(generateMenuSuggestions ops seeded masterMenu numDays numCombosPerDay
        minCalories maxCalories = Inr plan
      \<and> d1 < length (MenuPlan plan) \<and> i1 < length (Combos (MenuPlan plan ! d1))
      \<and> d2 < length (MenuPlan plan) \<and> i2 < length (Combos (MenuPlan plan ! d2))
      \<and> (d1, i1) \<noteq> (d2, i2)
      \<and> signatureOf (Combos (MenuPlan plan ! d1) ! i1) =
          signatureOf (Combos (MenuPlan plan ! d2) ! i2)
    \<longrightarrow> d1 + 3 \<le> d2 \<or> d2 + 3 \<le> d1)
   \<and> (allGeneratedComboSignatures st (comboSignature mainItem sideItem drinkItem) = Some d
      \<and> d' - d < 3
    \<longrightarrow> \<not> accepts ops minCalories maxCalories d' st mainItem sideItem drinkItem)"
proof (intro conjI impI)
  assume h: "generateMenuSuggestions ops seeded masterMenu numDays numCombosPerDay
        minCalories maxCalories = Inr plan
      \<and> d1 < length (MenuPlan plan) \<and> i1 < length (Combos (MenuPlan plan ! d1))
      \<and> d2 < length (MenuPlan plan) \<and> i2 < length (Combos (MenuPlan plan ! d2))
      \<and> (d1, i1) \<noteq> (d2, i2)
      \<and> signatureOf (Combos (MenuPlan plan ! d1) ! i1) =
          signatureOf (Combos (MenuPlan plan ! d2) ! i2)"
  let ?pl = "MenuPlan plan"
  from h have run: "generateMenuSuggestions ops seeded masterMenu numDays numCombosPerDay
        minCalories maxCalories = Inr plan" by simp
  note inv = week_signatures [OF run]
  from inv have B: "distinct (map signatureOf (Combos (?pl ! j)))" if "j < length ?pl" for j
    using that by blast
  from inv have C: "i + 3 \<le> j" if "i < j" "j < length ?pl" "a \<in> set (Combos (?pl ! i))"
    "b \<in> set (Combos (?pl ! j))" "signatureOf a = signatureOf b" for i j a b
    using that by blast
  from h have m1: "Combos (?pl ! d1) ! i1 \<in> set (Combos (?pl ! d1))"
    and m2: "Combos (?pl ! d2) ! i2 \<in> set (Combos (?pl ! d2))"
    by simp_all
  consider "d1 < d2" | "d2 < d1" | "d1 = d2" by linarith
  then show "d1 + 3 \<le> d2 \<or> d2 + 3 \<le> d1"
  proof cases
    case 1
    then show ?thesis using C [OF 1 _ m1 m2] h by simp
  next
    case 2
    then show ?thesis using C [OF 2 _ m2 m1] h by simp
  next
    case 3
    with h have ne: "i1 \<noteq> i2" and i1: "i1 < length (Combos (?pl ! d1))"
      and i2: "i2 < length (Combos (?pl ! d1))" by simp_all
    have "distinct (map signatureOf (Combos (?pl ! d1)))" using B h by simp
    then have "map signatureOf (Combos (?pl ! d1)) ! i1 \<noteq> map signatureOf (Combos (?pl ! d1)) ! i2"
      using ne i1 i2 nth_eq_iff_index_eq [of "map signatureOf (Combos (?pl ! d1))" i1 i2]
      by (simp del: nth_map)
    then show ?thesis using h 3 i1 i2 by simp
  qed
next
  assume "allGeneratedComboSignatures st (comboSignature mainItem sideItem drinkItem) = Some d
      \<and> d' - d < 3"
  then show "\<not> accepts ops minCalories maxCalories d' st mainItem sideItem drinkItem"
    by (simp add: accepts_def isUniqueWithin3Days_def)
qed

theorem same_signature_three_days_apart_witness:
  "generateMenuSuggestions exact_ops round_robin [burger, wrap, bowl, fries, water] 4 1 550 800 =
     Inr \<lparr>MenuPlan =
       [\<lparr>Day = ''Monday'', Combos = [makeCombo exact_ops 1 burger fries water]\<rparr>,
        \<lparr>Day = ''Tuesday'', Combos = [makeCombo exact_ops 2 wrap fries water]\<rparr>,
        \<lparr>Day = ''Wednesday'', Combos = [makeCombo exact_ops 3 bowl fries water]\<rparr>,
        \<lparr>Day = ''Thursday'', Combos = [makeCombo exact_ops 4 burger fries water]\<rparr>]\<rparr>
   \<and> (0::nat) < length (MenuPlan \<lparr>MenuPlan =
       [\<lparr>Day = ''Monday'', Combos = [makeCombo exact_ops 1 burger fries water]\<rparr>,
        \<lparr>Day = ''Tuesday'', Combos = [makeCombo exact_ops 2 wrap fries water]\<rparr>,
        \<lparr>Day = ''Wednesday'', Combos = [makeCombo exact_ops 3 bowl fries water]\<rparr>,
        \<lparr>Day = ''Thursday'', Combos = [makeCombo exact_ops 4 burger fries water]\<rparr>]\<rparr>) \<and> (0::nat) < length (Combos (MenuPlan \<lparr>MenuPlan =
       [\<lparr>Day = ''Monday'', Combos = [makeCombo exact_ops 1 burger fries water]\<rparr>,
        \<lparr>Day = ''Tuesday'', Combos = [makeCombo exact_ops 2 wrap fries water]\<rparr>,
        \<lparr>Day = ''Wednesday'', Combos = [makeCombo exact_ops 3 bowl fries water]\<rparr>,
        \<lparr>Day = ''Thursday'', Combos = [makeCombo exact_ops 4 burger fries water]\<rparr>]\<rparr> ! 0))
   \<and> (3::nat) < length (MenuPlan \<lparr>MenuPlan =
       [\<lparr>Day = ''Monday'', Combos = [makeCombo exact_ops 1 burger fries water]\<rparr>,
        \<lparr>Day = ''Tuesday'', Combos = [makeCombo exact_ops 2 wrap fries water]\<rparr>,
        \<lparr>Day = ''Wednesday'', Combos = [makeCombo exact_ops 3 bowl fries water]\<rparr>,
        \<lparr>Day = ''Thursday'', Combos = [makeCombo exact_ops 4 burger fries water]\<rparr>]\<rparr>) \<and> (0::nat) < length (Combos (MenuPlan \<lparr>MenuPlan =
       [\<lparr>Day = ''Monday'', Combos = [makeCombo exact_ops 1 burger fries water]\<rparr>,
        \<lparr>Day = ''Tuesday'', Combos = [makeCombo exact_ops 2 wrap fries water]\<rparr>,
        \<lparr>Day = ''Wednesday'', Combos = [makeCombo exact_ops 3 bowl fries water]\<rparr>,
        \<lparr>Day = ''Thursday'', Combos = [makeCombo exact_ops 4 burger fries water]\<rparr>]\<rparr> ! 3))
   \<and> (0::nat, 0::nat) \<noteq> (3, 0)
   \<and> signatureOf (Combos (MenuPlan \<lparr>MenuPlan =
       [\<lparr>Day = ''Monday'', Combos = [makeCombo exact_ops 1 burger fries water]\<rparr>,
        \<lparr>Day = ''Tuesday'', Combos = [makeCombo exact_ops 2 wrap fries water]\<rparr>,
        \<lparr>Day = ''Wednesday'', Combos = [makeCombo exact_ops 3 bowl fries water]\<rparr>,
        \<lparr>Day = ''Thursday'', Combos = [makeCombo exact_ops 4 burger fries water]\<rparr>]\<rparr> ! 0) ! 0) = signatureOf (Combos (MenuPlan \<lparr>MenuPlan =
       [\<lparr>Day = ''Monday'', Combos = [makeCombo exact_ops 1 burger fries water]\<rparr>,
        \<lparr>Day = ''Tuesday'', Combos = [makeCombo exact_ops 2 wrap fries water]\<rparr>,
        \<lparr>Day = ''Wednesday'', Combos = [makeCombo exact_ops 3 bowl fries water]\<rparr>,
        \<lparr>Day = ''Thursday'', Combos = [makeCombo exact_ops 4 burger fries water]\<rparr>]\<rparr> ! 3) ! 0)
   \<and> ((0::nat) + 3 \<le> 3 \<or> (3::nat) + 3 \<le> 0)
   \<and> allGeneratedComboSignatures (\<lparr> dailyCombos = [], currentDayUsedItems = (\<lambda>name. False), usedItemsForDay1 = None,
         allGeneratedComboSignatures = [comboSignature burger fries water \<mapsto> 0],
         globalComboCounter = 1, rand = round_robin \<rparr> :: real sampler)
          (comboSignature burger fries water) = Some 0
   \<and> (2::int) - 0 < 3
   \<and> \<not> accepts exact_ops 550 800 2 \<lparr> dailyCombos = [], currentDayUsedItems = (\<lambda>name. False), usedItemsForDay1 = None,
         allGeneratedComboSignatures = [comboSignature burger fries water \<mapsto> 0],
         globalComboCounter = 1, rand = round_robin \<rparr> burger fries water"
proof -
  let ?plan = "\<lparr>MenuPlan =
       [\<lparr>Day = ''Monday'', Combos = [makeCombo exact_ops 1 burger fries water]\<rparr>,
        \<lparr>Day = ''Tuesday'', Combos = [makeCombo exact_ops 2 wrap fries water]\<rparr>,
        \<lparr>Day = ''Wednesday'', Combos = [makeCombo exact_ops 3 bowl fries water]\<rparr>,
        \<lparr>Day = ''Thursday'', Combos = [makeCombo exact_ops 4 burger fries water]\<rparr>]\<rparr>"
  let ?st = "\<lparr> dailyCombos = [], currentDayUsedItems = (\<lambda>name. False), usedItemsForDay1 = None,
         allGeneratedComboSignatures = [comboSignature burger fries water \<mapsto> 0],
         globalComboCounter = 1, rand = round_robin \<rparr> :: real sampler"
  have pos: "(0::nat) < length (MenuPlan ?plan) \<and> (0::nat) < length (Combos (MenuPlan ?plan ! 0))
      \<and> (3::nat) < length (MenuPlan ?plan) \<and> (0::nat) < length (Combos (MenuPlan ?plan ! 3))
      \<and> (0::nat, 0::nat) \<noteq> (3, 0)
      \<and> signatureOf (Combos (MenuPlan ?plan ! 0) ! 0) = signatureOf (Combos (MenuPlan ?plan ! 3) ! 0)"
    by simp
  have last: "allGeneratedComboSignatures ?st (comboSignature burger fries water) = Some 0
      \<and> (2::int) - 0 < 3"
    by simp
  note inst = same_signature_three_days_apart [of exact_ops round_robin
      "[burger, wrap, bowl, fries, water]" 4 1 550 800 ?plan 0 0 3 0 ?st burger fries water 0 2]
  have apart: "(0::nat) + 3 \<le> 3 \<or> (3::nat) + 3 \<le> 0"
    by (rule mp [OF conjunct1 [OF inst] conjI [OF run_four_days pos]])
  have rejected: "\<not> accepts exact_ops 550 800 2 ?st burger fries water"
    by (rule mp [OF conjunct2 [OF inst] last])
  show ?thesis
    by (intro conjI run_four_days pos [THEN conjunct1] pos [THEN conjunct2, THEN conjunct1]
        pos [THEN conjunct2, THEN conjunct2, THEN conjunct1]
        pos [THEN conjunct2, THEN conjunct2, THEN conjunct2, THEN conjunct1]
        pos [THEN conjunct2, THEN conjunct2, THEN conjunct2, THEN conjunct2, THEN conjunct1]
        pos [THEN conjunct2, THEN conjunct2, THEN conjunct2, THEN conjunct2, THEN conjunct2]
        apart last [THEN conjunct1] last [THEN conjunct2] rejected)
qed

section \<open>Items within one day\<close>

lemma day_disjoint:
  "sorted_wrt (\<lambda>a b. comboNames a \<inter> comboNames b = {})
     (dailyCombos (snd (generateDailyCombos ops cm n lo hi u sg d cnt r)))"
proof -
  define P where "P st \<longleftrightarrow>
      sorted_wrt (\<lambda>a b. comboNames a \<inter> comboNames b = {}) (dailyCombos st)
      \<and> (\<forall>c \<in> set (dailyCombos st). \<forall>x \<in> comboNames c. currentDayUsedItems st x)"
    for st :: "'a sampler"
  have "P (snd (generateDailyCombos ops cm n lo hi u sg d cnt r))"
  proof (rule generateDailyCombos_rule)
    show "P \<lparr> dailyCombos = [], currentDayUsedItems = (\<lambda>name. False), usedItemsForDay1 = u,
               allGeneratedComboSignatures = sg, globalComboCounter = cnt, rand = r \<rparr>"
      by (simp add: P_def)
  next
    fix st r assume "P st" then show "P (st\<lparr>rand := r\<rparr>)" by (simp add: P_def)
  next
    fix st m s k
    assume P: "P st" and acc: "accepts ops lo hi d st m s k"
    let ?new = "makeCombo ops (globalComboCounter st + 1) m s k"
    from acc have fresh: "\<not> currentDayUsedItems st (ItemName m)"
      "\<not> currentDayUsedItems st (ItemName s)" "\<not> currentDayUsedItems st (ItemName k)"
      by (auto simp: accepts_def isUniqueForCurrentDayItems_def split: if_splits)
    have "comboNames c \<inter> comboNames ?new = {}" if "c \<in> set (dailyCombos st)" for c
      using P that fresh by (auto simp: P_def)
    then have 1: "sorted_wrt (\<lambda>a b. comboNames a \<inter> comboNames b = {})
        (dailyCombos (acceptCombo ops d m s k st))"
      using P by (simp add: P_def dailyCombos_acceptCombo sorted_wrt_append)
    have 2: "\<forall>c \<in> set (dailyCombos (acceptCombo ops d m s k st)). \<forall>x \<in> comboNames c.
        currentDayUsedItems (acceptCombo ops d m s k st) x"
      using P by (auto simp: P_def dailyCombos_acceptCombo currentDayUsedItems_acceptCombo)
    from 1 2 show "P (acceptCombo ops d m s k st)" by (simp add: P_def)
  qed
  then show ?thesis by (simp add: P_def)
qed

text \<open>
  C3: within every day of a generated plan, day index 0 included, two different accepted
  combos of the day share no item name, whatever the positions (main, side, drink) of the
  name in the two combos.
\<close>

theorem no_item_twice_in_a_day:
  assumes "generateMenuSuggestions ops seeded masterMenu numDays numCombosPerDay
             minCalories maxCalories = Inr plan"
    and "dm \<in> set (MenuPlan plan)"
    and "i < j" and "j < length (Combos dm)"
  shows "comboNames (Combos dm ! i) \<inter> comboNames (Combos dm ! j) = {}"
proof -
  define W where "W d ws \<longleftrightarrow> (\<forall>dm \<in> set (fullMenuPlan ws).
      sorted_wrt (\<lambda>a b. comboNames a \<inter> comboNames b = {}) (Combos dm))"
    for d :: int and ws :: "'a planner"
  have "\<exists>d' ws'. W d' ws' \<and> MenuPlan plan = fullMenuPlan ws'"
  proof (rule generateMenuSuggestions_rule [OF assms(1)])
    show "W 0 \<lparr> fullMenuPlan = [], day1OverallUsedItems = (\<lambda>name. False), signatures = Map.empty,
               comboCounter = 0, source = seeded \<rparr>"
      by (simp add: W_def)
  next
    fix d ws assume "W d ws"
    then show "W (d + 1) (planDay ops (categorizeMenu masterMenu) numCombosPerDay
        minCalories maxCalories d ws)"
      using day_disjoint by (auto simp: W_def planDay_eq Let_def)
  qed
  then have "sorted_wrt (\<lambda>a b. comboNames a \<inter> comboNames b = {}) (Combos dm)"
    using assms(2) by (auto simp: W_def)
  then show ?thesis
    using assms(3,4) by (simp add: sorted_wrt_iff_nth_less)
qed

theorem no_item_twice_in_a_day_witness:
  "generateMenuSuggestions exact_ops round_robin [burger, wrap, bowl, fries, salad, water, tea]
       1 2 550 800 = Inr \<lparr>MenuPlan = [\<lparr>Day = ''Monday'', Combos = [makeCombo exact_ops 1 burger fries water, makeCombo exact_ops 2 wrap salad tea]\<rparr>]\<rparr>
   \<and> \<lparr>Day = ''Monday'', Combos = [makeCombo exact_ops 1 burger fries water, makeCombo exact_ops 2 wrap salad tea]\<rparr> \<in> set (MenuPlan \<lparr>MenuPlan = [\<lparr>Day = ''Monday'', Combos = [makeCombo exact_ops 1 burger fries water, makeCombo exact_ops 2 wrap salad tea]\<rparr>]\<rparr>)
   \<and> (0::nat) < 1 \<and> 1 < length (Combos \<lparr>Day = ''Monday'', Combos = [makeCombo exact_ops 1 burger fries water, makeCombo exact_ops 2 wrap salad tea]\<rparr>)
   \<and> comboNames (Combos \<lparr>Day = ''Monday'', Combos = [makeCombo exact_ops 1 burger fries water, makeCombo exact_ops 2 wrap salad tea]\<rparr> ! 0) \<inter> comboNames (Combos \<lparr>Day = ''Monday'', Combos = [makeCombo exact_ops 1 burger fries water, makeCombo exact_ops 2 wrap salad tea]\<rparr> ! 1) = {}"
proof -
  have dm: "\<lparr>Day = ''Monday'', Combos = [makeCombo exact_ops 1 burger fries water, makeCombo exact_ops 2 wrap salad tea]\<rparr> \<in> set (MenuPlan \<lparr>MenuPlan = [\<lparr>Day = ''Monday'', Combos = [makeCombo exact_ops 1 burger fries water, makeCombo exact_ops 2 wrap salad tea]\<rparr>]\<rparr>)" by simp
  have ij: "(0::nat) < 1" "1 < length (Combos \<lparr>Day = ''Monday'', Combos = [makeCombo exact_ops 1 burger fries water, makeCombo exact_ops 2 wrap salad tea]\<rparr>)" by simp_all
  from no_item_twice_in_a_day [OF run_two_slots dm ij] run_two_slots dm ij
  show ?thesis by blast
qed

section \<open>Combo identifiers\<close>

lemma digits10_value: "foldl (\<lambda>acc c. 10 * acc + (of_char c - 48)) (0::nat) (digits10 n) = n"
proof (induction n rule: digits10.induct)
  case (1 n)
  show ?case
  proof (cases "n < 10")
    case True
    then show ?thesis by (subst digits10.simps) (simp add: digit_char_def)
  next
    case False
    then show ?thesis
      using "1.IH" by (subst digits10.simps) (simp add: digit_char_def)
  qed
qed

lemma digits10_inj: "digits10 a = digits10 b \<Longrightarrow> a = b"
  by (metis digits10_value)

lemma itoa_inj_nonneg: "0 \<le> a \<Longrightarrow> 0 \<le> b \<Longrightarrow> itoa a = itoa b \<Longrightarrow> a = b"
  using digits10_inj [of "nat a" "nat b"] by (simp add: itoa_def)

lemma day_ids:
  assumes "0 \<le> cnt" and "prev = map (\<lambda>n. ''combo_'' @ itoa n) [1..cnt]"
  shows "0 \<le> globalComboCounter (snd (generateDailyCombos ops cm n lo hi u sg d cnt r))
    \<and> prev @ map ComboID (dailyCombos (snd (generateDailyCombos ops cm n lo hi u sg d cnt r))) =
        map (\<lambda>n. ''combo_'' @ itoa n)
          [1..globalComboCounter (snd (generateDailyCombos ops cm n lo hi u sg d cnt r))]"
proof -
  define P where "P st \<longleftrightarrow> 0 \<le> globalComboCounter st
      \<and> prev @ map ComboID (dailyCombos st) =
          map (\<lambda>n. ''combo_'' @ itoa n) [1..globalComboCounter st]"
    for st :: "'a sampler"
  have "P (snd (generateDailyCombos ops cm n lo hi u sg d cnt r))"
  proof (rule generateDailyCombos_rule)
    show "P \<lparr> dailyCombos = [], currentDayUsedItems = (\<lambda>name. False), usedItemsForDay1 = u,
               allGeneratedComboSignatures = sg, globalComboCounter = cnt, rand = r \<rparr>"
      using assms by (simp add: P_def)
  next
    fix st r assume "P st" then show "P (st\<lparr>rand := r\<rparr>)" by (simp add: P_def)
  next
    fix st m s k
    assume P: "P st"
    then have "[1..globalComboCounter st + 1] = [1..globalComboCounter st] @ [globalComboCounter st + 1]"
      by (simp add: P_def upto_rec2)
    then show "P (acceptCombo ops d m s k st)"
      using P by (simp add: P_def dailyCombos_acceptCombo globalComboCounter_acceptCombo)
  qed
  then show ?thesis by (simp add: P_def)
qed

text \<open>
  C4: over the whole plan of one run, in the order in which the combos were accepted, the
  identifiers are "combo_1", "combo_2", ... : their numeric components increase strictly and
  the identifiers are pairwise distinct.
\<close>

theorem combo_ids_distinct_increasing:
  assumes "generateMenuSuggestions ops seeded masterMenu numDays numCombosPerDay
             minCalories maxCalories = Inr plan"
  shows "let ids = map ComboID (concat (map Combos (MenuPlan plan)))
         in distinct ids
            \<and> ids = map (\<lambda>n. ''combo_'' @ itoa n) [1..int (length ids)]
            \<and> sorted_wrt (<) [1..int (length ids)]"
proof -
  define W where "W d ws \<longleftrightarrow> 0 \<le> comboCounter ws
      \<and> map ComboID (concat (map Combos (fullMenuPlan ws))) =
          map (\<lambda>n. ''combo_'' @ itoa n) [1..comboCounter ws]"
    for d :: int and ws :: "'a planner"
  have "\<exists>d' ws'. W d' ws' \<and> MenuPlan plan = fullMenuPlan ws'"
  proof (rule generateMenuSuggestions_rule [OF assms(1)])
    show "W 0 \<lparr> fullMenuPlan = [], day1OverallUsedItems = (\<lambda>name. False), signatures = Map.empty,
               comboCounter = 0, source = seeded \<rparr>"
      by (simp add: W_def)
  next
    fix d ws assume "W d ws"
    then show "W (d + 1) (planDay ops (categorizeMenu masterMenu) numCombosPerDay
        minCalories maxCalories d ws)"
      using day_ids [of "comboCounter ws" "map ComboID (concat (map Combos (fullMenuPlan ws)))"
          ops "categorizeMenu masterMenu" numCombosPerDay minCalories maxCalories
          "if d = 0 then Some (day1OverallUsedItems ws) else None" "signatures ws" d "source ws"]
      by (simp add: W_def planDay_eq Let_def)
  qed
  then obtain c where c: "0 \<le> c"
    and ids: "map ComboID (concat (map Combos (MenuPlan plan))) =
      map (\<lambda>n. ''combo_'' @ itoa n) [1..c]"
    by (auto simp: W_def)
  let ?ids = "map ComboID (concat (map Combos (MenuPlan plan)))"
  have "length ?ids = length [1..c]" by (simp only: ids length_map)
  then have len: "int (length ?ids) = c" using c by simp
  have "inj_on (\<lambda>n. ''combo_'' @ itoa n) (set [1..c])"
  proof (rule inj_onI)
    fix x y :: int
    assume "x \<in> set [1..c]" "y \<in> set [1..c]" "''combo_'' @ itoa x = ''combo_'' @ itoa y"
    then have "0 \<le> x" "0 \<le> y" "itoa x = itoa y" by simp_all
    then show "x = y" by (rule itoa_inj_nonneg)
  qed
  then have "distinct ?ids" by (simp only: ids distinct_map distinct_upto simp_thms)
  moreover have "sorted_wrt (<) [1..c]"
    by (simp add: strict_sorted_iff)
  ultimately show ?thesis
    unfolding Let_def len using ids by simp
qed

theorem combo_ids_distinct_increasing_witness:
  "generateMenuSuggestions exact_ops round_robin [burger, wrap, bowl, fries, salad, water, tea]
       1 2 550 800 =
     Inr \<lparr>MenuPlan = [\<lparr>Day = ''Monday'',
            Combos = [makeCombo exact_ops 1 burger fries water,
                      makeCombo exact_ops 2 wrap salad tea]\<rparr>]\<rparr>
   \<and> distinct [''combo_'' @ itoa 1, ''combo_'' @ itoa 2]
   \<and> sorted_wrt (<) [1 :: int, 2]"
  using combo_ids_distinct_increasing [OF run_two_slots] run_two_slots
  by (simp add: Let_def upto_rec1)

section \<open>Exhausted slots\<close>

lemma attemptLoop_bounds:
  assumes "attempts \<le> maxAttemptsPerCombo"
    and "attemptLoop ops mains sides drinks lo hi d attempts st = (found, a, st')"
  shows "a \<le> maxAttemptsPerCombo \<and> attempts \<le> a
       \<and> rand st' = (rand st)\<lparr>pos := pos (rand st) + 3 * (a - attempts)\<rparr>
       \<and> (found \<longrightarrow> length (dailyCombos st') = Suc (length (dailyCombos st)))
       \<and> (\<not> found \<longrightarrow> a = maxAttemptsPerCombo
            \<and> st' = st\<lparr>rand := (rand st)\<lparr>pos := pos (rand st) + 3 * (maxAttemptsPerCombo - attempts)\<rparr>\<rparr>)"
  using assms
proof (induction ops mains sides drinks lo hi d attempts st rule: attemptLoop.induct)
  case (1 ops mains sides drinks lo hi d attempts st)
  show ?case
  proof (cases "attempts < maxAttemptsPerCombo")
    case False
    then have "found = False" "a = attempts" "st' = st"
      using "1.prems"(2) by (subst (asm) attemptLoop.simps; simp)+
    then show ?thesis using False "1.prems"(1) by simp
  next
    case True
    obtain m s k r where dr: "drawItems mains sides drinks (rand st) = ((m, s, k), r)"
      by (metis prod_cases3 surj_pair)
    have r: "r = (rand st)\<lparr>pos := pos (rand st) + 3\<rparr>"
      using drawItems_rand [of mains sides drinks "rand st"] dr by simp
    show ?thesis
    proof (cases "accepts ops lo hi d st m s k")
      case acc: True
      have "(found, a, st') = (True, attempts + 1, acceptCombo ops d m s k (st\<lparr>rand := r\<rparr>))"
        using "1.prems"(2) attemptLoop_accept_now [OF True dr acc] by simp
      then show ?thesis using True r by (simp add: dailyCombos_acceptCombo)
    next
      case rej: False
      have next_eq: "attemptLoop ops mains sides drinks lo hi d (attempts + 1) (st\<lparr>rand := r\<rparr>) =
          (found, a, st')"
        using "1.prems"(2) attemptLoop_reject_now [OF True dr rej] by simp
      have le: "attempts + 1 \<le> maxAttemptsPerCombo" using True by simp
      note ih = "1.IH" [OF True dr [symmetric] refl refl rej le next_eq]
      have i1: "a \<le> maxAttemptsPerCombo" and i2: "attempts + 1 \<le> a"
        using ih by simp_all
      have i3: "rand st' = r\<lparr>pos := pos r + 3 * (a - (attempts + 1))\<rparr>"
        using ih by simp
      have i4: "found \<longrightarrow> length (dailyCombos st') = Suc (length (dailyCombos st))"
        using ih by simp
      have i5: "\<not> found \<longrightarrow> a = maxAttemptsPerCombo
          \<and> st' = st\<lparr>rand := r\<lparr>pos := pos r + 3 * (maxAttemptsPerCombo - (attempts + 1))\<rparr>\<rparr>"
        using ih by simp
      have e1: "pos (rand st) + 3 + 3 * (a - (attempts + 1)) = pos (rand st) + 3 * (a - attempts)"
        using i2 by simp
      have e2: "pos (rand st) + 3 + 3 * (maxAttemptsPerCombo - (attempts + 1)) =
          pos (rand st) + 3 * (maxAttemptsPerCombo - attempts)"
        using True by simp
      have "rand st' = (rand st)\<lparr>pos := pos (rand st) + 3 * (a - attempts)\<rparr>"
        using i3 r e1 by simp
      moreover have "\<not> found \<longrightarrow> st' =
          st\<lparr>rand := (rand st)\<lparr>pos := pos (rand st) + 3 * (maxAttemptsPerCombo - attempts)\<rparr>\<rparr>"
        using i5 r e2 by simp
      ultimately show ?thesis using i1 i2 i4 i5 by simp
    qed
  qed
qed

text \<open>When no triple of the pools is acceptable, the slot runs out of attempts.\<close>

lemma attemptLoop_exhausted:
  assumes "mains \<noteq> []" "sides \<noteq> []" "drinks \<noteq> []"
    and "\<And>m s k. m \<in> set mains \<Longrightarrow> s \<in> set sides \<Longrightarrow> k \<in> set drinks \<Longrightarrow>
           \<not> accepts ops lo hi d st m s k"
    and "attempts \<le> maxAttemptsPerCombo"
  shows "attemptLoop ops mains sides drinks lo hi d attempts st =
           (False, maxAttemptsPerCombo,
            st\<lparr>rand := (rand st)\<lparr>pos := pos (rand st) + 3 * (maxAttemptsPerCombo - attempts)\<rparr>\<rparr>)"
  using assms
proof (induction ops mains sides drinks lo hi d attempts st rule: attemptLoop.induct)
  case (1 ops mains sides drinks lo hi d attempts st)
  show ?case
  proof (cases "attempts < maxAttemptsPerCombo")
    case False
    then have "attempts = maxAttemptsPerCombo" using "1.prems"(5) by simp
    then show ?thesis by (subst attemptLoop.simps) simp
  next
    case True
    obtain m s k r where dr: "drawItems mains sides drinks (rand st) = ((m, s, k), r)"
      by (metis prod_cases3 surj_pair)
    have r: "r = (rand st)\<lparr>pos := pos (rand st) + 3\<rparr>"
      using drawItems_rand [of mains sides drinks "rand st"] dr by simp
    have rej: "\<not> accepts ops lo hi d st m s k"
      using drawItems_mem [OF "1.prems"(1-3) dr] "1.prems"(4) by blast
    have rej': "\<And>m s k. m \<in> set mains \<Longrightarrow> s \<in> set sides \<Longrightarrow> k \<in> set drinks \<Longrightarrow>
           \<not> accepts ops lo hi d (st\<lparr>rand := r\<rparr>) m s k"
      using "1.prems"(4) by simp
    have le: "attempts + 1 \<le> maxAttemptsPerCombo" using True by simp
    have "attemptLoop ops mains sides drinks lo hi d (attempts + 1) (st\<lparr>rand := r\<rparr>) =
        (False, maxAttemptsPerCombo,
         st\<lparr>rand := r\<lparr>pos := pos r + 3 * (maxAttemptsPerCombo - (attempts + 1))\<rparr>\<rparr>)"
      using "1.IH" [OF True dr [symmetric] refl refl rej "1.prems"(1-3) rej' le] by simp
    moreover have "pos (rand st) + 3 + 3 * (maxAttemptsPerCombo - (attempts + 1)) =
        pos (rand st) + 3 * (maxAttemptsPerCombo - attempts)"
      using True by simp
    ultimately show ?thesis
      using attemptLoop_reject_now [OF True dr rej] r by simp
  qed
qed

lemma slotLoop_bounds:
  "length (dailyCombos (slotLoop ops mains sides drinks n lo hi d i st))
       \<le> length (dailyCombos st) + nat (n - i)
   \<and> pos (rand (slotLoop ops mains sides drinks n lo hi d i st))
       \<le> pos (rand st) + 3 * maxAttemptsPerCombo * nat (n - i)"
proof (induction ops mains sides drinks n lo hi d i st rule: slotLoop.induct)
  case (1 ops mains sides drinks n lo hi d i st)
  show ?case
  proof (cases "i < n")
    case False
    then show ?thesis by (simp add: slotLoop_done)
  next
    case True
    obtain found a st' where al: "attemptLoop ops mains sides drinks lo hi d 0 st = (found, a, st')"
      by (metis prod_cases3)
    from attemptLoop_bounds [OF _ al]
    have a: "a \<le> maxAttemptsPerCombo" and r: "rand st' = (rand st)\<lparr>pos := pos (rand st) + 3 * a\<rparr>"
      and f: "found \<longrightarrow> length (dailyCombos st') = Suc (length (dailyCombos st))"
      and nf: "\<not> found \<longrightarrow>
          st' = st\<lparr>rand := (rand st)\<lparr>pos := pos (rand st) + 3 * maxAttemptsPerCombo\<rparr>\<rparr>"
      by simp_all
    have step: "nat (n - i) = Suc (nat (n - (i + 1)))" using True by simp
    have p: "pos (rand st') \<le> pos (rand st) + 3 * maxAttemptsPerCombo"
      using a r by simp
    show ?thesis
    proof (cases found)
      case False
      then have "slotLoop ops mains sides drinks n lo hi d i st = st'"
        using slotLoop_not_found [OF True] al by simp
      moreover have "dailyCombos st' = dailyCombos st"
        using nf False by simp
      ultimately show ?thesis using p step by simp
    next
      case fnd: True
      then have eq: "slotLoop ops mains sides drinks n lo hi d i st =
          slotLoop ops mains sides drinks n lo hi d (i + 1) st'"
        using slotLoop_found [OF True] al by simp
      from "1.IH" [OF True al [symmetric] refl] fnd
      have "length (dailyCombos (slotLoop ops mains sides drinks n lo hi d (i + 1) st'))
           \<le> length (dailyCombos st') + nat (n - (i + 1))"
        and "pos (rand (slotLoop ops mains sides drinks n lo hi d (i + 1) st'))
           \<le> pos (rand st') + 3 * maxAttemptsPerCombo * nat (n - (i + 1))"
        by simp_all
      then show ?thesis using eq f fnd p step by simp
    qed
  qed
qed

lemma day_state_only_on_acceptance:
  fixes final :: "'a::linorder sampler"
  assumes "final = snd (generateDailyCombos ops cm n lo hi u sg d cnt r)"
  shows "globalComboCounter final = cnt + int (length (dailyCombos final))
       \<and> (\<forall>sig. allGeneratedComboSignatures final sig =
             (if sig \<in> signatureOf ` set (dailyCombos final) then Some d else sg sig))"
proof -
  define P where "P st \<longleftrightarrow> globalComboCounter st = cnt + int (length (dailyCombos st))
       \<and> (\<forall>sig. allGeneratedComboSignatures st sig =
             (if sig \<in> signatureOf ` set (dailyCombos st) then Some d else sg sig))"
    for st :: "'a sampler"
  have "P (snd (generateDailyCombos ops cm n lo hi u sg d cnt r))"
  proof (rule generateDailyCombos_rule)
    show "P \<lparr> dailyCombos = [], currentDayUsedItems = (\<lambda>name. False), usedItemsForDay1 = u,
               allGeneratedComboSignatures = sg, globalComboCounter = cnt, rand = r \<rparr>"
      by (simp add: P_def)
  next
    fix st r assume "P st" then show "P (st\<lparr>rand := r\<rparr>)" by (simp add: P_def)
  next
    fix st m s k
    assume "P st"
    then show "P (acceptCombo ops d m s k st)"
      by (simp add: P_def dailyCombos_acceptCombo globalComboCounter_acceptCombo
          allGeneratedComboSignatures_acceptCombo)
  qed
  then show ?thesis by (simp add: P_def assms)
qed

lemma day_bounds:
  "length (fst (generateDailyCombos ops cm n lo hi u sg d cnt r)) \<le> nat n
   \<and> pos (rand (snd (generateDailyCombos ops cm n lo hi u sg d cnt r)))
       \<le> pos r + 3 * maxAttemptsPerCombo * nat n"
proof -
  let ?st0 = "\<lparr> dailyCombos = [], currentDayUsedItems = (\<lambda>name. False), usedItemsForDay1 = u,
               allGeneratedComboSignatures = sg, globalComboCounter = cnt, rand = r \<rparr>"
  show ?thesis
    using slotLoop_bounds [of ops "slice_at cm ''main''" "slice_at cm ''side''"
        "slice_at cm ''drink''" n lo hi d 0 ?st0]
    by (simp add: generateDailyCombos_def Let_def)
qed

text \<open>
  C5: a slot makes at most 5000 attempts, each drawing three random numbers. When a slot ends
  without an accepted combo, it has made 5000 attempts and changed nothing but the random
  source; the loop over the slots stops there, so the day has fewer combos than requested.
  Over a day, the combo counter grows by the number of accepted combos and the map of
  signatures changes at their signatures only. The run is not aborted: whether a plan is
  returned depends on the number of days alone (at most 7, the days the planner has names
  for), not on what the slots find.
\<close>

theorem slot_exhaustion_is_local:
  "(attemptLoop ops mains sides drinks minCalories maxCalories currentDayIndex 0 st =
      (comboFound, attempts, st')
    \<longrightarrow> attempts \<le> 5000
        \<and> rand st' = (rand st)\<lparr>pos := pos (rand st) + 3 * attempts\<rparr>
        \<and> (\<not> comboFound \<longrightarrow>
              attempts = 5000
            \<and> st' = st\<lparr>rand := (rand st)\<lparr>pos := pos (rand st) + 3 * 5000\<rparr>\<rparr>
            \<and> (i < numCombosPerDay \<longrightarrow>
                  slotLoop ops mains sides drinks numCombosPerDay minCalories maxCalories
                    currentDayIndex i st = st'
                \<and> (int (length (dailyCombos st)) = i \<longrightarrow>
                     int (length (dailyCombos (slotLoop ops mains sides drinks numCombosPerDay
                        minCalories maxCalories currentDayIndex i st))) < numCombosPerDay))))
   \<and> (final = snd (generateDailyCombos ops categorizedMenu numCombosPerDay minCalories maxCalories
                 used sigs currentDayIndex counter r)
      \<longrightarrow> globalComboCounter final = counter + int (length (dailyCombos final))
        \<and> (\<forall>sig. allGeneratedComboSignatures final sig =
              (if sig \<in> signatureOf ` set (dailyCombos final) then Some currentDayIndex
               else sigs sig))
        \<and> length (dailyCombos final) \<le> nat numCombosPerDay
        \<and> pos (rand final) \<le> pos r + 3 * 5000 * nat numCombosPerDay)
   \<and> ((\<exists>plan. generateMenuSuggestions ops seeded masterMenu numDays numCombosPerDay
                  minCalories maxCalories = Inr plan)
        \<longleftrightarrow> numDays \<le> 7)"
proof (intro conjI impI)
  assume al: "attemptLoop ops mains sides drinks minCalories maxCalories currentDayIndex 0 st =
      (comboFound, attempts, st')"
  note b = attemptLoop_bounds [OF _ al, simplified]
  show "attempts \<le> 5000" using b by (simp add: maxAttemptsPerCombo_def)
  show "rand st' = (rand st)\<lparr>pos := pos (rand st) + 3 * attempts\<rparr>" using b by simp
  {
    assume nf: "\<not> comboFound"
    show "attempts = 5000" using b nf by (simp add: maxAttemptsPerCombo_def)
    show same: "st' = st\<lparr>rand := (rand st)\<lparr>pos := pos (rand st) + 3 * 5000\<rparr>\<rparr>"
      using b nf by (simp add: maxAttemptsPerCombo_def)
    {
      assume i: "i < numCombosPerDay"
      show stop: "slotLoop ops mains sides drinks numCombosPerDay minCalories maxCalories
                    currentDayIndex i st = st'"
        using slotLoop_not_found [OF i] al nf by simp
      {
        assume "int (length (dailyCombos st)) = i"
        then show "int (length (dailyCombos (slotLoop ops mains sides drinks numCombosPerDay
                        minCalories maxCalories currentDayIndex i st))) < numCombosPerDay"
          unfolding stop using i same by simp
      }
    }
  }
next
  assume f: "final = snd (generateDailyCombos ops categorizedMenu numCombosPerDay minCalories
      maxCalories used sigs currentDayIndex counter r)"
  note s = day_state_only_on_acceptance [OF f]
  show "globalComboCounter final = counter + int (length (dailyCombos final))" using s by blast
  show "\<forall>sig. allGeneratedComboSignatures final sig =
              (if sig \<in> signatureOf ` set (dailyCombos final) then Some currentDayIndex
               else sigs sig)" using s by blast
  note d = day_bounds [of ops categorizedMenu numCombosPerDay minCalories maxCalories used sigs
      currentDayIndex counter r]
  show "length (dailyCombos final) \<le> nat numCombosPerDay"
    using d by (simp add: f generateDailyCombos_fst)
  show "pos (rand final) \<le> pos r + 3 * 5000 * nat numCombosPerDay"
    using d by (simp add: f maxAttemptsPerCombo_def)
next
  show "(\<exists>plan. generateMenuSuggestions ops seeded masterMenu numDays numCombosPerDay
                  minCalories maxCalories = Inr plan)
        \<longleftrightarrow> numDays \<le> 7"
  proof (cases "numDays \<le> 7")
    case True
    from generateMenuSuggestions_total [OF this] True show ?thesis by blast
  next
    case False
    then have "generateMenuSuggestions ops seeded masterMenu numDays numCombosPerDay
        minCalories maxCalories = Inl IndexOutOfRange"
      by (simp add: generateMenuSuggestions_def Let_def dayLoop_panics)
    then show ?thesis using False by simp
  qed
qed

theorem slot_exhaustion_is_local_witness:
  "attemptLoop exact_ops [burger] [fries] [water] 700 800 0 0
      (\<lparr> dailyCombos = [], currentDayUsedItems = (\<lambda>name. False), usedItemsForDay1 = None,
         allGeneratedComboSignatures = Map.empty, globalComboCounter = 0,
         rand = round_robin \<rparr> :: real sampler)
     = (False, 5000,
        \<lparr> dailyCombos = [], currentDayUsedItems = (\<lambda>name. False), usedItemsForDay1 = None,
          allGeneratedComboSignatures = Map.empty, globalComboCounter = 0,
          rand = round_robin\<lparr>pos := 15000\<rparr> \<rparr>)
   \<and> (5000::nat) \<le> 5000
   \<and> (0::int) < 3
   \<and> slotLoop exact_ops [burger] [fries] [water] 3 700 800 0 0
        (\<lparr> dailyCombos = [], currentDayUsedItems = (\<lambda>name. False), usedItemsForDay1 = None,
           allGeneratedComboSignatures = Map.empty, globalComboCounter = 0,
           rand = round_robin \<rparr> :: real sampler)
       = \<lparr> dailyCombos = [], currentDayUsedItems = (\<lambda>name. False), usedItemsForDay1 = None,
           allGeneratedComboSignatures = Map.empty, globalComboCounter = 0,
           rand = round_robin\<lparr>pos := 15000\<rparr> \<rparr>
   \<and> int (length (dailyCombos (slotLoop exact_ops [burger] [fries] [water] 3 700 800 0 0
        (\<lparr> dailyCombos = [], currentDayUsedItems = (\<lambda>name. False), usedItemsForDay1 = None,
           allGeneratedComboSignatures = Map.empty, globalComboCounter = 0,
           rand = round_robin \<rparr> :: real sampler)))) < 3
   \<and> globalComboCounter (snd (generateDailyCombos exact_ops (categorizeMenu [burger, fries, water])
          3 700 800 None Map.empty 0 0 round_robin))
       = 0 + int (length (dailyCombos (snd (generateDailyCombos exact_ops
            (categorizeMenu [burger, fries, water]) 3 700 800 None Map.empty 0 0 round_robin))))
   \<and> (7::int) \<le> 7
   \<and> (\<exists>plan. generateMenuSuggestions exact_ops round_robin [burger, fries, water] 7 3 700 800
          = Inr plan)"
proof -
  let ?st = "\<lparr> dailyCombos = [], currentDayUsedItems = (\<lambda>name. False), usedItemsForDay1 = None,
         allGeneratedComboSignatures = Map.empty, globalComboCounter = 0,
         rand = round_robin \<rparr> :: real sampler"
  let ?st' = "\<lparr> dailyCombos = [], currentDayUsedItems = (\<lambda>name. False), usedItemsForDay1 = None,
          allGeneratedComboSignatures = Map.empty, globalComboCounter = 0,
          rand = round_robin\<lparr>pos := 15000\<rparr> \<rparr> :: real sampler"
  let ?final = "snd (generateDailyCombos exact_ops (categorizeMenu [burger, fries, water])
          3 700 800 None Map.empty 0 0 round_robin)"
  have rej: "\<not> accepts exact_ops 700 800 0 ?st m s k"
    if "m \<in> set [burger]" "s \<in> set [fries]" "k \<in> set [water]" for m s k
    using that by (simp add: accepts_def isValidCombo_iff item_defs)
  have al: "attemptLoop exact_ops [burger] [fries] [water] 700 800 0 0 ?st = (False, 5000, ?st')"
    using attemptLoop_exhausted [of "[burger]" "[fries]" "[water]" exact_ops 700 800 0 ?st 0] rej
    by (simp add: maxAttemptsPerCombo_def round_robin_def)
  note inst = slot_exhaustion_is_local [where ops = exact_ops and mains = "[burger]"
      and sides = "[fries]" and drinks = "[water]" and minCalories = 700 and maxCalories = 800
      and currentDayIndex = 0 and st = ?st and comboFound = False and attempts = 5000
      and st' = ?st' and i = 0 and numCombosPerDay = 3 and final = ?final
      and categorizedMenu = "categorizeMenu [burger, fries, water]" and used = None
      and sigs = Map.empty and counter = 0 and r = round_robin and numDays = 7
      and seeded = round_robin and masterMenu = "[burger, fries, water]"]
  note slot = mp [OF conjunct1 [OF inst] al]
  have i: "(0::int) < 3" by simp
  have nf: "\<not> False" by simp
  note stop = mp [OF conjunct2 [OF conjunct2 [OF mp [OF conjunct2 [OF conjunct2 [OF slot]] nf]]] i]
  have len0: "int (length (dailyCombos ?st)) = 0" by simp
  note fewer = mp [OF conjunct2 [OF stop] len0]
  note day = mp [OF conjunct1 [OF conjunct2 [OF inst]] refl]
  have seven: "(7::int) \<le> 7" by simp
  note total = iffD2 [OF conjunct2 [OF conjunct2 [OF inst]] seven]
  show ?thesis
    by (intro conjI al conjunct1 [OF slot] i conjunct1 [OF stop] fewer conjunct1 [OF day] seven total)
qed

section \<open>Empty role pools\<close>

text \<open>
  C6: if the main, side or drink pool of the categorized catalog is empty, generateDailyCombos
  returns an empty list of combos for the day and leaves the shared combo counter as it was.
\<close>

theorem empty_pool_no_combo:
  assumes "slice_at categorizedMenu ''main'' = [] \<or> slice_at categorizedMenu ''side'' = []
           \<or> slice_at categorizedMenu ''drink'' = []"
  shows "fst (generateDailyCombos ops categorizedMenu numCombosPerDay minCalories maxCalories
               used sigs currentDayIndex counter r) = []
         \<and> globalComboCounter (snd (generateDailyCombos ops categorizedMenu numCombosPerDay
               minCalories maxCalories used sigs currentDayIndex counter r)) = counter"
  using assms by (auto simp: generateDailyCombos_def Let_def)

theorem empty_pool_no_combo_witness:
  "slice_at (categorizeMenu [fries, water]) ''main'' = []
   \<and> fst (generateDailyCombos exact_ops (categorizeMenu [fries, water]) 3 550 800
               None Map.empty 1 4 round_robin) = []
   \<and> globalComboCounter (snd (generateDailyCombos exact_ops (categorizeMenu [fries, water]) 3
               550 800 None Map.empty 1 4 round_robin)) = 4"
proof -
  have h: "slice_at (categorizeMenu [fries, water]) ''main'' = []"
    by (simp add: slice_at_categorizeMenu fries_def water_def item_def)
  then have "slice_at (categorizeMenu [fries, water]) ''main'' = []
      \<or> slice_at (categorizeMenu [fries, water]) ''side'' = []
      \<or> slice_at (categorizeMenu [fries, water]) ''drink'' = []" by simp
  from empty_pool_no_combo [OF this, of exact_ops 3 550 800 None Map.empty 1 4 round_robin] h
  show ?thesis by simp
qed

section \<open>The reasoning string\<close>

lemma tasteDesc_cases:
  "tasteDesc mainItem sideItem drinkItem =
     (let profiles = {TasteProfile mainItem, TasteProfile sideItem, TasteProfile drinkItem}
      in if card profiles = 1 then ''a '' @ TasteProfile mainItem @ '' profile''
         else if ''spicy'' \<in> profiles then ''a spicy and mixed taste profile''
         else if ''sweet'' \<in> profiles then ''a sweet and mixed taste profile''
         else if ''savory'' \<in> profiles then ''a savory and mixed taste profile''
         else if ''fresh'' \<in> profiles then ''a fresh and mixed taste profile''
         else ''a mixed taste profile'')"
proof -
  define a where "a = TasteProfile mainItem"
  define b where "b = TasteProfile sideItem"
  define c where "c = TasteProfile drinkItem"
  have one: "card {a, b, c} = 1 \<longleftrightarrow> a = b \<and> b = c"
    by (auto simp: card_insert_if)
  have len: "length (AList.update c True (AList.update b True (AList.update a True []))) = 1
      \<longleftrightarrow> a = b \<and> b = c"
    by auto
  have at: "bool_at (AList.update c True (AList.update b True (AList.update a True []))) p
      \<longleftrightarrow> p \<in> {a, b, c}" for p
    by (auto simp: bool_at_def update_conv')
  show ?thesis
    unfolding tasteDesc_def Let_def a_def [symmetric] b_def [symmetric] c_def [symmetric] one len at
    by auto
qed

text \<open>
  C7: the reasoning string embeds the taste description, which is "a P profile" when the three
  items have exactly one distinct taste profile P; otherwise "a P and mixed taste profile" for
  the first P of spicy, sweet, savory, fresh among the three profiles; otherwise "a mixed taste
  profile". For the profiles savory, savory, fresh it is "a savory and mixed taste profile".
\<close>

theorem reasoning_taste_description:
  "generateReasoning ops mainItem sideItem drinkItem totalCalories avgPopularity =
     ''This combo features '' @ tasteDesc mainItem sideItem drinkItem
       @ '', consists of popular choices (average popularity: '' @ f_fmt2 ops avgPopularity
       @ ''), and meets the calorie target ('' @ itoa (sint totalCalories) @ '' kcal).''
   \<and> tasteDesc mainItem sideItem drinkItem =
       (let profiles = {TasteProfile mainItem, TasteProfile sideItem, TasteProfile drinkItem}
        in if card profiles = 1 then ''a '' @ TasteProfile mainItem @ '' profile''
           else if ''spicy'' \<in> profiles then ''a spicy and mixed taste profile''
           else if ''sweet'' \<in> profiles then ''a sweet and mixed taste profile''
           else if ''savory'' \<in> profiles then ''a savory and mixed taste profile''
           else if ''fresh'' \<in> profiles then ''a fresh and mixed taste profile''
           else ''a mixed taste profile'')
   \<and> (TasteProfile mainItem = ''savory'' \<and> TasteProfile sideItem = ''savory''
        \<and> TasteProfile drinkItem = ''fresh''
      \<longrightarrow> tasteDesc mainItem sideItem drinkItem = ''a savory and mixed taste profile'')"
proof (intro conjI impI)
  show "generateReasoning ops mainItem sideItem drinkItem totalCalories avgPopularity =
     ''This combo features '' @ tasteDesc mainItem sideItem drinkItem
       @ '', consists of popular choices (average popularity: '' @ f_fmt2 ops avgPopularity
       @ ''), and meets the calorie target ('' @ itoa (sint totalCalories) @ '' kcal).''"
    by (simp add: generateReasoning_def)
next
  show "tasteDesc mainItem sideItem drinkItem =
       (let profiles = {TasteProfile mainItem, TasteProfile sideItem, TasteProfile drinkItem}
        in if card profiles = 1 then ''a '' @ TasteProfile mainItem @ '' profile''
           else if ''spicy'' \<in> profiles then ''a spicy and mixed taste profile''
           else if ''sweet'' \<in> profiles then ''a sweet and mixed taste profile''
           else if ''savory'' \<in> profiles then ''a savory and mixed taste profile''
           else if ''fresh'' \<in> profiles then ''a fresh and mixed taste profile''
           else ''a mixed taste profile'')"
    by (rule tasteDesc_cases)
next
  assume "TasteProfile mainItem = ''savory'' \<and> TasteProfile sideItem = ''savory''
        \<and> TasteProfile drinkItem = ''fresh''"
  then show "tasteDesc mainItem sideItem drinkItem = ''a savory and mixed taste profile''"
    by (simp add: tasteDesc_cases card_insert_if)
qed

theorem reasoning_taste_description_witness:
  "TasteProfile burger = ''savory'' \<and> TasteProfile fries = ''savory'' \<and> TasteProfile water = ''fresh''
   \<and> tasteDesc burger fries water = ''a savory and mixed taste profile''
   \<and> tasteDesc burger fries fries = ''a savory profile''
   \<and> tasteDesc salad water water = ''a fresh profile''
   \<and> tasteDesc wrap salad tea = ''a spicy and mixed taste profile''"
proof -
  have h: "TasteProfile burger = ''savory'' \<and> TasteProfile fries = ''savory''
      \<and> TasteProfile water = ''fresh''"
    by (simp add: item_defs)
  have 1: "tasteDesc burger fries water = ''a savory and mixed taste profile''"
    using reasoning_taste_description [of exact_ops burger fries water 650 8] h by blast
  have 2: "tasteDesc burger fries fries = ''a savory profile''"
    using reasoning_taste_description [of exact_ops burger fries fries 650 8]
    by (simp add: item_defs card_insert_if)
  have 3: "tasteDesc salad water water = ''a fresh profile''"
    using reasoning_taste_description [of exact_ops salad water water 650 8]
    by (simp add: item_defs card_insert_if)
  have 4: "tasteDesc wrap salad tea = ''a spicy and mixed taste profile''"
    using reasoning_taste_description [of exact_ops wrap salad tea 650 8]
    by (simp add: item_defs card_insert_if)
  from h 1 2 3 4 show ?thesis by simp
qed

section \<open>The days of the plan\<close>

text \<open>
  C8, as amended: for every catalog and every requested number of days N of at most 7, the
  Week Planner returns a plan with exactly one DailyMenu per day index 0..N-1, labelled with
  the first N day names in calendar order, whatever shortfalls the days have.
\<close>

theorem week_has_one_menu_per_day:
  assumes "numDays \<le> 7"
  shows "\<exists>plan. generateMenuSuggestions ops seeded masterMenu numDays numCombosPerDay
                  minCalories maxCalories = Inr plan
           \<and> length (MenuPlan plan) = nat numDays
           \<and> map Day (MenuPlan plan) = take (nat numDays) dayNames"
proof -
  from generateMenuSuggestions_total [OF assms, of ops seeded masterMenu numCombosPerDay minCalories maxCalories]
  obtain plan where p: "generateMenuSuggestions ops seeded masterMenu numDays numCombosPerDay
                  minCalories maxCalories = Inr plan"
    and d: "map Day (MenuPlan plan) = take (nat numDays) dayNames" by blast
  have "length (map Day (MenuPlan plan)) = nat numDays"
    using assms by (simp add: d dayNames_def)
  then have "length (MenuPlan plan) = nat numDays"
    by (simp only: length_map)
  then show ?thesis using p d by blast
qed

theorem week_has_one_menu_per_day_witness:
  "(7::int) \<le> 7
   \<and> (\<exists>plan. generateMenuSuggestions exact_ops round_robin [burger, fries, water] 7 3 550 800 = Inr plan
         \<and> length (MenuPlan plan) = 7
         \<and> map Day (MenuPlan plan) = dayNames)"
  using week_has_one_menu_per_day [of 7 exact_ops round_robin "[burger, fries, water]" 3 550 800]
  by (simp add: dayNames_def)

text \<open>
  C8 as stated, for every N, fails: with 8 days the read of \<open>dayNames[7]\<close> panics and no
  plan is returned.
\<close>

theorem eight_days_panic:
  "generateMenuSuggestions exact_ops round_robin [burger, fries, water] 8 3 550 800
     = Inl IndexOutOfRange"
  by (simp add: generateMenuSuggestions_def Let_def dayLoop_panics)

section \<open>Items outside the three roles\<close>

text \<open>
  C10, as amended: the sampler draws only from the pools of the categories main, side and
  drink, so each name in an accepted combo is the name of a catalog item of category main
  (for the main position), side or drink; an item of any other category is never drawn, and
  its name appears in no accepted combo unless a main, side or drink item has the same name.
\<close>

theorem combo_names_come_from_role_pools:
  assumes "generateMenuSuggestions ops seeded masterMenu numDays numCombosPerDay
             minCalories maxCalories = Inr plan"
    and "dm \<in> set (MenuPlan plan)" and "c \<in> set (Combos dm)"
  shows "(\<exists>m \<in> set masterMenu. Category m = ''main'' \<and> ItemName m = Main c)
       \<and> (\<exists>s \<in> set masterMenu. Category s = ''side'' \<and> ItemName s = Side c)
       \<and> (\<exists>k \<in> set masterMenu. Category k = ''drink'' \<and> ItemName k = Drink c)
       \<and> (\<forall>x \<in> set masterMenu.
             Category x \<notin> {''main'', ''side'', ''drink''} \<longrightarrow>
             (\<forall>y \<in> set masterMenu.
                Category y \<in> {''main'', ''side'', ''drink''} \<longrightarrow> ItemName y \<noteq> ItemName x) \<longrightarrow>
             ItemName x \<notin> {Main c, Side c, Drink c})"
proof -
  from plan_combo_origin [OF assms]
  obtain m s k cnt where o: "m \<in> set masterMenu" "Category m = ''main''"
    "s \<in> set masterMenu" "Category s = ''side''" "k \<in> set masterMenu" "Category k = ''drink''"
    and c: "c = makeCombo ops cnt m s k"
    by blast
  have names: "Main c = ItemName m" "Side c = ItemName s" "Drink c = ItemName k"
    by (simp_all only: c makeCombo_sel)
  have 1: "\<exists>m \<in> set masterMenu. Category m = ''main'' \<and> ItemName m = Main c"
    using o names by metis
  have 2: "\<exists>s \<in> set masterMenu. Category s = ''side'' \<and> ItemName s = Side c"
    using o names by metis
  have 3: "\<exists>k \<in> set masterMenu. Category k = ''drink'' \<and> ItemName k = Drink c"
    using o names by metis
  have 4: "\<forall>x \<in> set masterMenu.
             Category x \<notin> {''main'', ''side'', ''drink''} \<longrightarrow>
             (\<forall>y \<in> set masterMenu.
                Category y \<in> {''main'', ''side'', ''drink''} \<longrightarrow> ItemName y \<noteq> ItemName x) \<longrightarrow>
             ItemName x \<notin> {Main c, Side c, Drink c}"
  proof (intro ballI impI)
    fix x
    assume "x \<in> set masterMenu" and "Category x \<notin> {''main'', ''side'', ''drink''}"
    assume "\<forall>y \<in> set masterMenu.
        Category y \<in> {''main'', ''side'', ''drink''} \<longrightarrow> ItemName y \<noteq> ItemName x"
    then have "ItemName m \<noteq> ItemName x" "ItemName s \<noteq> ItemName x" "ItemName k \<noteq> ItemName x"
      using o by simp_all
    then show "ItemName x \<notin> {Main c, Side c, Drink c}"
      unfolding names by auto
  qed
  from 1 2 3 4 show ?thesis by blast
qed

theorem combo_names_come_from_role_pools_witness:
  "generateMenuSuggestions exact_ops round_robin [cake, burger, fries, water] 1 1 550 800 = Inr \<lparr>MenuPlan = [\<lparr>Day = ''Monday'', Combos = [makeCombo exact_ops 1 burger fries water]\<rparr>]\<rparr>
   \<and> \<lparr>Day = ''Monday'', Combos = [makeCombo exact_ops 1 burger fries water]\<rparr> \<in> set (MenuPlan \<lparr>MenuPlan = [\<lparr>Day = ''Monday'', Combos = [makeCombo exact_ops 1 burger fries water]\<rparr>]\<rparr>)
   \<and> makeCombo exact_ops 1 burger fries water \<in> set (Combos \<lparr>Day = ''Monday'', Combos = [makeCombo exact_ops 1 burger fries water]\<rparr>)
   \<and> cake \<in> set [cake, burger, fries, water]
   \<and> Category cake \<notin> {''main'', ''side'', ''drink''}
   \<and> ItemName burger \<noteq> ItemName cake \<and> ItemName fries \<noteq> ItemName cake
   \<and> ItemName water \<noteq> ItemName cake
   \<and> ItemName cake \<notin> {Main (makeCombo exact_ops 1 burger fries water), Side (makeCombo exact_ops 1 burger fries water), Drink (makeCombo exact_ops 1 burger fries water)}
   \<and> (\<exists>m \<in> set [cake, burger, fries, water]. Category m = ''main'' \<and> ItemName m = Main (makeCombo exact_ops 1 burger fries water))"
proof -
  have dm: "\<lparr>Day = ''Monday'', Combos = [makeCombo exact_ops 1 burger fries water]\<rparr> \<in> set (MenuPlan \<lparr>MenuPlan = [\<lparr>Day = ''Monday'', Combos = [makeCombo exact_ops 1 burger fries water]\<rparr>]\<rparr>)" by simp
  have c: "makeCombo exact_ops 1 burger fries water \<in> set (Combos \<lparr>Day = ''Monday'', Combos = [makeCombo exact_ops 1 burger fries water]\<rparr>)" by simp
  have x: "cake \<in> set [cake, burger, fries, water]" by simp
  have cat: "Category cake \<notin> {''main'', ''side'', ''drink''}" by (simp add: item_defs)
  have uniq: "\<forall>y \<in> set [cake, burger, fries, water].
         Category y \<in> {''main'', ''side'', ''drink''} \<longrightarrow> ItemName y \<noteq> ItemName cake"
    by (simp add: item_defs)
  have names: "ItemName burger \<noteq> ItemName cake" "ItemName fries \<noteq> ItemName cake"
    "ItemName water \<noteq> ItemName cake"
    by (simp_all add: item_defs)
  from combo_names_come_from_role_pools [OF run_cake dm c] run_cake dm c x cat uniq names
  show ?thesis by blast
qed

text \<open>
  C10 as stated fails: a dessert named like the main dish of the catalog has its name in the
  accepted combo.
\<close>

theorem excluded_item_name_in_combo:
  "generateMenuSuggestions exact_ops round_robin [burger_cake, burger, fries, water] 1 1 550 800 =
     Inr \<lparr>MenuPlan = [\<lparr>Day = ''Monday'', Combos = [makeCombo exact_ops 1 burger fries water]\<rparr>]\<rparr>
   \<and> Category burger_cake \<noteq> ''main'' \<and> Category burger_cake \<noteq> ''side''
   \<and> Category burger_cake \<noteq> ''drink''
   \<and> Main (makeCombo exact_ops 1 burger fries water) = ItemName burger_cake"
  by (simp add: run_burger_cake) (simp add: item_defs)

section \<open>The size of the combo counter\<close>

lemma day_length_le_mains:
  "length (dailyCombos (snd (generateDailyCombos ops cm n lo hi u sg d cnt r)))
     \<le> length (slice_at cm ''main'')"
proof -
  define P where "P st \<longleftrightarrow> distinct (map Main (dailyCombos st))
      \<and> Main ` set (dailyCombos st) \<subseteq> ItemName ` set (slice_at cm ''main'')
      \<and> (\<forall>c \<in> set (dailyCombos st). currentDayUsedItems st (Main c))"
    for st :: "'a sampler"
  have "P (snd (generateDailyCombos ops cm n lo hi u sg d cnt r))"
  proof (rule generateDailyCombos_rule)
    show "P \<lparr> dailyCombos = [], currentDayUsedItems = (\<lambda>name. False), usedItemsForDay1 = u,
               allGeneratedComboSignatures = sg, globalComboCounter = cnt, rand = r \<rparr>"
      by (simp add: P_def)
  next
    fix st r assume "P st" then show "P (st\<lparr>rand := r\<rparr>)" by (simp add: P_def)
  next
    fix st m s k
    assume P: "P st" and m: "m \<in> set (slice_at cm ''main'')"
      and acc: "accepts ops lo hi d st m s k"
    from acc have "\<not> currentDayUsedItems st (ItemName m)"
      by (auto simp: accepts_def isUniqueForCurrentDayItems_def split: if_splits)
    then have "ItemName m \<notin> Main ` set (dailyCombos st)" using P by (auto simp: P_def)
    then show "P (acceptCombo ops d m s k st)"
      using P m by (auto simp: P_def dailyCombos_acceptCombo currentDayUsedItems_acceptCombo)
  qed
  then have dist: "distinct (map Main (dailyCombos (snd (generateDailyCombos ops cm n lo hi u sg d cnt r))))"
    and sub: "Main ` set (dailyCombos (snd (generateDailyCombos ops cm n lo hi u sg d cnt r)))
      \<subseteq> ItemName ` set (slice_at cm ''main'')"
    by (simp_all add: P_def)
  let ?cs = "dailyCombos (snd (generateDailyCombos ops cm n lo hi u sg d cnt r))"
  have "length ?cs = card (set (map Main ?cs))"
    using dist distinct_card [of "map Main ?cs"] by simp
  also have "\<dots> \<le> card (ItemName ` set (slice_at cm ''main''))"
    using sub by (simp add: card_mono)
  also have "\<dots> \<le> card (set (slice_at cm ''main''))" by (simp add: card_image_le)
  also have "\<dots> \<le> length (slice_at cm ''main'')" by (rule card_length)
  finally show ?thesis .
qed

text \<open>
  The combo counter of a run never exceeds seven times the size of the catalog, so the
  increments of the 64-bit counter of the program do not wrap around.
\<close>

lemma comboCounter_small:
  assumes "dayLoop ops (categorizeMenu masterMenu) numDays n lo hi 0
      \<lparr> fullMenuPlan = [], day1OverallUsedItems = (\<lambda>name. False), signatures = Map.empty,
        comboCounter = 0, source = seeded \<rparr> = Inr ws'"
  shows "0 \<le> comboCounter ws' \<and> comboCounter ws' \<le> 7 * int (length masterMenu)"
proof -
  let ?cm = "categorizeMenu masterMenu"
  define W where "W d ws \<longleftrightarrow> 0 \<le> d \<and> d \<le> 7 \<and> 0 \<le> comboCounter ws
      \<and> comboCounter ws \<le> d * int (length masterMenu)"
    for d :: int and ws :: "'a planner"
  have "\<exists>d'. W d' ws'"
  proof (rule dayLoop_rule [OF _ assms])
    show "W 0 \<lparr> fullMenuPlan = [], day1OverallUsedItems = (\<lambda>name. False), signatures = Map.empty,
        comboCounter = 0, source = seeded \<rparr>"
      by (simp add: W_def)
  next
    fix d ws
    assume W: "W d ws" and d: "0 \<le> d" "d < 7"
    let ?st = "snd (generateDailyCombos ops ?cm n lo hi
                 (if d = 0 then Some (day1OverallUsedItems ws) else None)
                 (signatures ws) d (comboCounter ws) (source ws))"
    have cnt: "globalComboCounter ?st = comboCounter ws + int (length (dailyCombos ?st))"
      using day_state_only_on_acceptance [OF refl] by blast
    have "length (dailyCombos ?st) \<le> length (slice_at ?cm ''main'')"
      by (rule day_length_le_mains)
    also have "\<dots> \<le> length masterMenu" by (simp add: slice_at_categorizeMenu)
    finally have "int (length (dailyCombos ?st)) \<le> int (length masterMenu)" by simp
    then have "globalComboCounter ?st \<le> (d + 1) * int (length masterMenu)"
      using W cnt by (simp add: W_def algebra_simps)
    moreover have "0 \<le> globalComboCounter ?st" using W cnt by (simp add: W_def)
    ultimately show "W (d + 1) (planDay ops ?cm n lo hi d ws)"
      using d by (simp add: W_def planDay_eq Let_def)
  qed
  then obtain d' where "0 \<le> d'" "d' \<le> 7" "0 \<le> comboCounter ws'"
    "comboCounter ws' \<le> d' * int (length masterMenu)"
    by (auto simp: W_def)
  moreover have "d' * int (length masterMenu) \<le> 7 * int (length masterMenu)"
    using \<open>d' \<le> 7\<close> by (simp add: mult_right_mono)
  ultimately show ?thesis by linarith
qed

end
